theory Spec2Isabelle
  imports Complex_Main "HOL-Library.Word"
begin

section \<open>Exceptions raised inside the handlers\<close>

text \<open>
  Every failure the handlers can meet is a Python exception. The model keeps the ones
  whose origin is the handlers' own code apart (\<open>IndexError\<close> from a list subscript,
  \<open>IsADirectoryError\<close> from opening a directory for writing) and carries the
  ones raised inside Pillow, torch and torchvision as \<open>Raised msg\<close>, where
  \<open>msg\<close> is what \<open>str(e)\<close> gives. All of them are instances of
  \<open>Exception\<close>, which is what the handlers' \<open>except\<close> clause catches.
  \<open>str_exn\<close> is \<open>str(e)\<close>; for \<open>IndexError\<close> it is the text of a subscript with an index
  that fits a machine word, as every \<open>predicted_idx.item()\<close> of a 64-bit tensor does.
\<close>

datatype py_exn =
    IndexError
  | IsADirectoryError string
  | Raised string

fun str_exn :: "py_exn \<Rightarrow> string" where
  "str_exn IndexError = ''list index out of range''"
| "str_exn (IsADirectoryError p) =
     ''[Errno 21] Is a directory: '' @ [CHR 0x27] @ p @ [CHR 0x27]"
| "str_exn (Raised m) = m"

section \<open>Label table\<close>

text \<open>
  \<open>CIFAR10_CLASSES\<close> of \<open>backend/app.py\<close> and \<open>api/index.py\<close> (the same ten names,
  in the same order, as \<open>labels\<close> of \<open>main.py\<close>).
\<close>

definition CIFAR10_CLASSES :: "string list" where
  "CIFAR10_CLASSES =
     [''airplane'', ''automobile'', ''bird'', ''cat'', ''deer'',
      ''dog'', ''frog'', ''horse'', ''ship'', ''truck'']"

text \<open>
  The subscript \<open>xs[i]\<close> of a Python list with an integer: a negative index counts
  from the end, and an index that is still out of range after that raises
  \<open>IndexError\<close>.
\<close>

definition py_getitem :: "'a list \<Rightarrow> int \<Rightarrow> py_exn + 'a" where
  "py_getitem xs i =
     (let n = int (length xs);
          j = (if i < 0 then i + n else i)
      in if 0 \<le> j \<and> j < n then Inr (xs ! nat j) else Inl IndexError)"

text \<open>
  The lookup \<open>CIFAR10_CLASSES[predicted_idx.item()]\<close> of both \<open>predict_image\<close>
  functions; \<open>predicted_idx.item()\<close> is a Python integer.
\<close>

definition labelOf :: "int \<Rightarrow> py_exn + string" where
  "labelOf index = py_getitem CIFAR10_CLASSES index"

section \<open>Preprocessing pipeline\<close>

subsection \<open>Floating-point numbers\<close>

text \<open>
  torch computes the pipeline in 32-bit floating point, and the constants of the source
  are Python floats, that is, 64-bit. A floating-point number is modelled by the real
  number it stands for, and an operation by the exact operation followed by rounding to
  the nearest number of the format, ties to the even significand
  (\<open>round_float p emin\<close>, for a significand of \<open>p\<close> bits and the least exponent
  \<open>emin\<close>, subnormal numbers included). \<open>binade\<close> finds the exponent \<open>e\<close> with
  \<open>2^e \<le> a < 2^(e+1)\<close> by halving or doubling; numbers beyond the largest
  of the format, which round to infinity, do not arise in the pipeline and are not
  modelled.
\<close>

definition pow2 :: "int \<Rightarrow> real" where
  "pow2 e = 2 powi e"

fun binade :: "nat \<Rightarrow> real \<Rightarrow> int" where
  "binade 0 a = 0"
| "binade (Suc fuel) a =
     (if 2 \<le> a then binade fuel (a / 2) + 1
      else if a < 1 then binade fuel (2 * a) - 1
      else 0)"

definition round_even :: "real \<Rightarrow> int" where
  "round_even x =
     (let f = \<lfloor>x\<rfloor>; d = x - of_int f
      in if d < 1 / 2 then f
         else if 1 / 2 < d then f + 1
         else if even f then f else f + 1)"

definition round_float :: "nat \<Rightarrow> int \<Rightarrow> real \<Rightarrow> real" where
  "round_float p emin x =
     (if x = 0 then 0
      else (let e = max emin (binade 1100 \<bar>x\<bar>);
                q = pow2 (e - int p + 1)
            in of_int (round_even (x / q)) * q))"

definition float32 :: "real \<Rightarrow> real" where
  "float32 x = round_float 24 (- 126) x"

definition float64 :: "real \<Rightarrow> real" where
  "float64 x = round_float 53 (- 1022) x"

text \<open>
  \<open>torch.as_tensor(x, dtype=torch.float32)\<close> of a decimal literal \<open>x\<close> of the source:
  Python reads the literal as a 64-bit float, torch converts that to 32 bits.
\<close>

definition as_float32 :: "real \<Rightarrow> real" where
  "as_float32 x = float32 (float64 x)"

subsection \<open>The three transforms\<close>

text \<open>
  \<open>transform\<close> is a \<open>transforms.Compose\<close> of three torchvision transforms, applied to
  the RGB image the caller has made of the decoded one (\<open>image.convert('RGB')\<close>): rows
  of pixels with 8-bit channels.

  \<^item> \<open>Resize((32, 32))\<close> hands a Pillow image to \<open>Image.resize\<close>, which returns a copy
    when the image already has the requested size and resamples otherwise; the
    resampling filter is the parameter \<open>resample\<close>.
  \<^item> \<open>ToTensor()\<close> turns the H x W x C bytes into a C x H x W tensor of 32-bit floats
    and divides it by 255.
  \<^item> \<open>Normalize(mean, std)\<close> converts \<open>mean\<close> and \<open>std\<close> to 32-bit tensors, subtracts
    the channel's mean (\<open>sub_\<close>) and divides by its std (\<open>div_\<close>); it raises when a
    std is zero, which none of the source's is.
\<close>

type_synonym pixel = "8 word \<times> 8 word \<times> 8 word"
type_synonym rgb_image = "pixel list list"
type_synonym tensor = "real list list list"

definition is_grid :: "nat \<Rightarrow> nat \<Rightarrow> 'a list list \<Rightarrow> bool" where
  "is_grid h w rows = (length rows = h \<and> list_all (\<lambda>row. length row = w) rows)"

definition Resize ::
  "(nat \<times> nat \<Rightarrow> rgb_image \<Rightarrow> rgb_image) \<Rightarrow> nat \<times> nat \<Rightarrow> rgb_image \<Rightarrow> rgb_image" where
  "Resize resample hw img =
     (if is_grid (fst hw) (snd hw) img then img else resample hw img)"

definition red :: "pixel \<Rightarrow> 8 word" where "red p = fst p"
definition green :: "pixel \<Rightarrow> 8 word" where "green p = fst (snd p)"
definition blue :: "pixel \<Rightarrow> 8 word" where "blue p = snd (snd p)"

text \<open>The channel \<open>c\<close> of a pixel, in the order of the tensor's first axis.\<close>

definition channel :: "nat \<Rightarrow> pixel \<Rightarrow> 8 word" where
  "channel c p = (if c = 0 then red p else if c = 1 then green p else blue p)"

definition scaled :: "8 word \<Rightarrow> real" where
  "scaled v = float32 (real (unat v) / 255)"

definition ToTensor :: "rgb_image \<Rightarrow> tensor" where
  "ToTensor img =
     [map (map (\<lambda>p. scaled (red p))) img,
      map (map (\<lambda>p. scaled (green p))) img,
      map (map (\<lambda>p. scaled (blue p))) img]"

text \<open>One element under \<open>Normalize\<close>, for the mean \<open>m\<close> and the std \<open>s\<close> of its channel.\<close>

definition normalize_value :: "real \<Rightarrow> real \<Rightarrow> real \<Rightarrow> real" where
  "normalize_value m s v = float32 (float32 (v - as_float32 m) / as_float32 s)"

definition Normalize :: "real list \<Rightarrow> real list \<Rightarrow> tensor \<Rightarrow> tensor" where
  "Normalize mean std t =
     map (\<lambda>(plane, m, s). map (map (normalize_value m s)) plane) (zip t (zip mean std))"

definition cifar_mean :: "real list" where
  "cifar_mean = [0.4914, 0.4822, 0.4465]"

text \<open>The std of \<open>backend/app.py\<close> and \<open>api/index.py\<close>.\<close>

definition cifar_std :: "real list" where
  "cifar_std = [0.2023, 0.1994, 0.2010]"

text \<open>The std of \<open>main.py\<close>.\<close>

definition cifar_std_main :: "real list" where
  "cifar_std_main = [0.2470, 0.2435, 0.2616]"

text \<open>\<open>transform\<close> of \<open>backend/app.py\<close> and of \<open>api/index.py\<close> (the two are the same).\<close>

definition transform ::
  "(nat \<times> nat \<Rightarrow> rgb_image \<Rightarrow> rgb_image) \<Rightarrow> rgb_image \<Rightarrow> tensor" where
  "transform resample img =
     Normalize cifar_mean cifar_std (ToTensor (Resize resample (32, 32) img))"

text \<open>\<open>transform\<close> of \<open>main.py\<close>.\<close>

definition transform_main ::
  "(nat \<times> nat \<Rightarrow> rgb_image \<Rightarrow> rgb_image) \<Rightarrow> rgb_image \<Rightarrow> tensor" where
  "transform_main resample img =
     Normalize cifar_mean cifar_std_main (ToTensor (Resize resample (32, 32) img))"

text \<open>The all-zero RGB image of 32 rows of 32 pixels.\<close>

definition zero_image :: rgb_image where
  "zero_image = replicate 32 (replicate 32 (0, 0, 0))"

text \<open>
  A resampling filter to run the pipeline on concrete images: nearest neighbour. It
  stands in for Pillow's filter where a concrete one is needed.
\<close>

definition nearest :: "nat \<times> nat \<Rightarrow> rgb_image \<Rightarrow> rgb_image" where
  "nearest hw img =
     map (\<lambda>y. map (\<lambda>x. img ! (y * length img div fst hw)
                          ! (x * length (hd img) div snd hw))
                 [0 ..< snd hw])
         [0 ..< fst hw]"

section \<open>External collaborators of the handlers\<close>

text \<open>
  Pillow, torch and the operating system are outside the repository. What the handlers
  call of them is gathered in one record of functions; a call that can raise returns
  \<open>Inl\<close> of the exception. \<open>'img\<close> is a Pillow image, \<open>'t\<close> a torch tensor,
  \<open>'m\<close> the loaded network and \<open>'w\<close> the state of the disk the persistence step
  writes to.

  \<^item> \<open>Image_open\<close>: \<open>Image.open(io.BytesIO(image_bytes))\<close>.
  \<^item> \<open>mode\<close>, \<open>convert\<close>: \<open>image.mode\<close> and \<open>image.convert(m)\<close>.
  \<^item> \<open>apply_transform\<close>: the call \<open>transform(image)\<close> of the pipeline above on
    what Pillow decoded.
  \<^item> \<open>unsqueeze0\<close>: \<open>input_tensor.unsqueeze(0)\<close>.
  \<^item> \<open>call_model\<close>: \<open>model(input_batch)\<close> under \<open>torch.no_grad()\<close>.
  \<^item> \<open>softmax0\<close>: \<open>torch.nn.functional.softmax(output[0], dim=0)\<close>.
  \<^item> \<open>torch_max1\<close>: \<open>torch.max(output, 1)\<close> followed by \<open>predicted_idx.item()\<close>.
  \<^item> \<open>item_at\<close>: \<open>probabilities[i].item()\<close>.
  \<^item> \<open>py_round2\<close>: \<open>round(x, 2)\<close> on a float.
  \<^item> \<open>os_makedirs\<close>: \<open>os.makedirs(path, exist_ok=True)\<close>; it returns the exception,
    if one was raised, and the disk it leaves.
  \<^item> \<open>image_save\<close>: \<open>image.save(path)\<close>, likewise.
  \<^item> \<open>hub_load\<close>: \<open>torch.hub.load(...)\<close>; its argument counts the loads made
    before in this process, since a load that failed once may succeed later, and each
    load builds a network object of its own.
  \<^item> \<open>model_eval\<close>: \<open>_model.eval()\<close>; it returns the exception, if one was raised.
\<close>

record ('img, 't, 'm, 'w) collaborators =
  Image_open :: "8 word list \<Rightarrow> py_exn + 'img"
  mode :: "'img \<Rightarrow> string"
  convert :: "'img \<Rightarrow> string \<Rightarrow> py_exn + 'img"
  apply_transform :: "'img \<Rightarrow> py_exn + 't"
  unsqueeze0 :: "'t \<Rightarrow> 't"
  call_model :: "'m \<Rightarrow> 't \<Rightarrow> py_exn + 't"
  softmax0 :: "'t \<Rightarrow> py_exn + 't"
  torch_max1 :: "'t \<Rightarrow> py_exn + int"
  item_at :: "'t \<Rightarrow> int \<Rightarrow> py_exn + real"
  py_round2 :: "real \<Rightarrow> real"
  os_makedirs :: "string \<Rightarrow> 'w \<Rightarrow> py_exn option \<times> 'w"
  image_save :: "'img \<Rightarrow> string \<Rightarrow> 'w \<Rightarrow> py_exn option \<times> 'w"
  hub_load :: "nat \<Rightarrow> py_exn + 'm"
  model_eval :: "'m \<Rightarrow> py_exn option"

text \<open>Sequencing of calls that can raise: the first exception ends the sequence.\<close>

definition and_then :: "py_exn + 'a \<Rightarrow> ('a \<Rightarrow> py_exn + 'b) \<Rightarrow> py_exn + 'b" where
  "and_then r f = (case r of Inl e \<Rightarrow> Inl e | Inr x \<Rightarrow> f x)"

text \<open>\<open>os.path.join\<close> of \<open>posixpath\<close> on two components.\<close>

definition os_path_join :: "string \<Rightarrow> string \<Rightarrow> string" where
  "os_path_join a b =
     (if b \<noteq> [] \<and> hd b = CHR ''/'' then b
      else if a = [] \<or> last a = CHR ''/'' then a @ b
      else a @ ''/'' @ b)"

definition OUTPUT_DIR :: string where
  "OUTPUT_DIR = ''classified_images''"

section \<open>Classification results\<close>

text \<open>
  The dictionaries \<open>predict_image\<close> returns. A key the dictionary does not have is
  \<open>None\<close>; the key \<open>class\<close> is the field \<open>result_class\<close>.
\<close>

record classification_result =
  result_filename :: string
  result_class :: string
  result_confidence :: "real option"
  result_saved_path :: "string option"
  result_error :: "string option"

text \<open>The dictionary of the \<open>except Exception as e\<close> branch.\<close>

definition error_result :: "string \<Rightarrow> py_exn \<Rightarrow> classification_result" where
  "error_result fname e =
     \<lparr>result_filename = fname, result_class = ''error'', result_confidence = None,
      result_saved_path = None, result_error = Some (str_exn e)\<rparr>"

subsection \<open>\<open>predict_image\<close> of \<open>backend/app.py\<close>\<close>

text \<open>
  The statements of the \<open>try\<close> block up to the predicted class; none of them touches
  the disk.
\<close>

definition classify_app ::
  "('img, 't, 'm, 'w) collaborators \<Rightarrow> 'm \<Rightarrow> 8 word list \<Rightarrow> py_exn + ('img \<times> string)" where
  "classify_app lib model image_bytes =
     and_then (Image_open lib image_bytes) (\<lambda>image0.
     and_then (if mode lib image0 \<noteq> ''RGB'' then convert lib image0 ''RGB'' else Inr image0)
       (\<lambda>img.
     and_then (apply_transform lib img) (\<lambda>input_tensor.
     and_then (call_model lib model (unsqueeze0 lib input_tensor)) (\<lambda>output.
     and_then (torch_max1 lib output) (\<lambda>predicted_idx.
     and_then (labelOf predicted_idx) (\<lambda>predicted_class.
     Inr (img, predicted_class)))))))"

definition predict_image_app ::
  "('img, 't, 'm, 'w) collaborators \<Rightarrow> 'm \<Rightarrow> 8 word list \<Rightarrow> string \<Rightarrow> string \<Rightarrow> 'w
     \<Rightarrow> classification_result \<times> 'w" where
  "predict_image_app lib model image_bytes fname session_id w =
     (case classify_app lib model image_bytes of
        Inl e \<Rightarrow> (error_result fname e, w)
      | Inr (img, predicted_class) \<Rightarrow>
          (let session_dir = os_path_join OUTPUT_DIR session_id;
               class_dir = os_path_join session_dir predicted_class
           in case os_makedirs lib class_dir w of
                (Some e, w1) \<Rightarrow> (error_result fname e, w1)
              | (None, w1) \<Rightarrow>
                  (let save_path = os_path_join class_dir fname
                   in case image_save lib img save_path w1 of
                        (Some e, w2) \<Rightarrow> (error_result fname e, w2)
                      | (None, w2) \<Rightarrow>
                          (\<lparr>result_filename = fname, result_class = predicted_class,
                            result_confidence = None, result_saved_path = Some save_path,
                            result_error = None\<rparr>, w2))))"

subsection \<open>\<open>get_model\<close> and \<open>predict_image\<close> of \<open>api/index.py\<close>\<close>

text \<open>
  The global \<open>_model\<close>, with the number of calls of \<open>torch.hub.load\<close> made so far in
  the process. In \<open>get_model\<close> the global is assigned as soon as the load returns, before
  \<open>_model.eval()\<close> runs: when \<open>eval()\<close> raises, the network stays in \<open>_model\<close>.
\<close>

record 'm model_state =
  model_global :: "'m option"
  loads :: nat

definition get_model ::
  "('img, 't, 'm, 'w) collaborators \<Rightarrow> 'm model_state \<Rightarrow> (py_exn + 'm) \<times> 'm model_state" where
  "get_model lib st =
     (case model_global st of
        Some m \<Rightarrow> (Inr m, st)
      | None \<Rightarrow>
          (case hub_load lib (loads st) of
             Inl e \<Rightarrow> (Inl e, st\<lparr>loads := loads st + 1\<rparr>)
           | Inr m \<Rightarrow>
               (case model_eval lib m of
                  Some e \<Rightarrow> (Inl e, \<lparr>model_global = Some m, loads = loads st + 1\<rparr>)
                | None \<Rightarrow> (Inr m, \<lparr>model_global = Some m, loads = loads st + 1\<rparr>))))"

definition predict_image_api ::
  "('img, 't, 'm, 'w) collaborators \<Rightarrow> 8 word list \<Rightarrow> string \<Rightarrow> 'm model_state
     \<Rightarrow> classification_result \<times> 'm model_state" where
  "predict_image_api lib image_bytes fname st =
     (case
        and_then (Image_open lib image_bytes) (\<lambda>image0.
        and_then (if mode lib image0 \<noteq> ''RGB'' then convert lib image0 ''RGB'' else Inr image0)
          (\<lambda>img.
        and_then (apply_transform lib img) (\<lambda>input_tensor.
        Inr (unsqueeze0 lib input_tensor))))
      of
        Inl e \<Rightarrow> (error_result fname e, st)
      | Inr input_batch \<Rightarrow>
          (case get_model lib st of
             (Inl e, st') \<Rightarrow> (error_result fname e, st')
           | (Inr model, st') \<Rightarrow>
               (case
                  and_then (call_model lib model input_batch) (\<lambda>output.
                  and_then (softmax0 lib output) (\<lambda>probabilities.
                  and_then (torch_max1 lib output) (\<lambda>predicted_idx.
                  and_then (labelOf predicted_idx) (\<lambda>predicted_class.
                  and_then (item_at lib probabilities predicted_idx) (\<lambda>confidence.
                  Inr \<lparr>result_filename = fname, result_class = predicted_class,
                       result_confidence = Some (py_round2 lib (confidence * 100)),
                       result_saved_path = None, result_error = None\<rparr>)))))
                of
                  Inl e \<Rightarrow> (error_result fname e, st')
                | Inr result \<Rightarrow> (result, st'))))"

subsection \<open>Callers of \<open>get_model\<close> that run at the same time\<close>

text \<open>
  \<open>get_model\<close> holds no lock, and nothing else in \<open>api/index.py\<close> does. A caller
  therefore runs its statements in order while the interpreter may switch to another
  caller between them. The model keeps one switching point, the one between the test
  \<open>if _model is None\<close> and the body of the \<open>if\<close>: a caller is before the test
  (\<open>AtCheck\<close>), has found \<open>_model\<close> empty and stands before the load (\<open>AtLoad\<close>),
  or has returned or raised (\<open>Finished\<close>). A step at \<open>AtLoad\<close> is the whole body
  followed by \<open>return _model\<close>. (The interpreter may switch inside the body as well;
  those schedules are left out.)
\<close>

datatype 'm progress = AtCheck | AtLoad | Finished "py_exn + 'm"

fun caller_step ::
  "('img, 't, 'm, 'w) collaborators \<Rightarrow> 'm progress \<Rightarrow> 'm model_state
     \<Rightarrow> 'm progress \<times> 'm model_state" where
  "caller_step lib AtCheck st =
     (case model_global st of
        Some m \<Rightarrow> (Finished (Inr m), st)
      | None \<Rightarrow> (AtLoad, st))"
| "caller_step lib AtLoad st =
     (case hub_load lib (loads st) of
        Inl e \<Rightarrow> (Finished (Inl e), st\<lparr>loads := loads st + 1\<rparr>)
      | Inr m \<Rightarrow>
          (case model_eval lib m of
             Some e \<Rightarrow> (Finished (Inl e), \<lparr>model_global = Some m, loads = loads st + 1\<rparr>)
           | None \<Rightarrow> (Finished (Inr m), \<lparr>model_global = Some m, loads = loads st + 1\<rparr>)))"
| "caller_step lib (Finished r) st = (Finished r, st)"

text \<open>
  A schedule names, step by step, the caller that runs next; \<open>callers\<close> holds where
  each caller stands.
\<close>

fun run_schedule ::
  "('img, 't, 'm, 'w) collaborators \<Rightarrow> nat list \<Rightarrow> 'm progress list \<Rightarrow> 'm model_state
     \<Rightarrow> 'm progress list \<times> 'm model_state" where
  "run_schedule lib [] callers st = (callers, st)"
| "run_schedule lib (i # schedule) callers st =
     (if i < length callers
      then (case caller_step lib (callers ! i) st of
              (p, st') \<Rightarrow> run_schedule lib schedule (callers[i := p]) st')
      else run_schedule lib schedule callers st)"

section \<open>The \<open>/predict\<close> handlers\<close>

text \<open>
  An uploaded file (\<open>FileStorage\<close>): its client-supplied name and the bytes
  \<open>file.read()\<close> returns. \<open>request.files\<close> is a multi-dictionary: pairs of a form
  field and a file, in the order of the request. The handlers call \<open>file.read()\<close> in
  the loop, before \<open>predict_image\<close> and outside its \<open>try\<close> block; it reads what
  werkzeug has already received and is taken to return the bytes.
\<close>

record file_storage =
  filename :: string
  stream :: "8 word list"

definition has_field :: "(string \<times> file_storage) list \<Rightarrow> string \<Rightarrow> bool" where
  "has_field request_files field = (field \<in> set (map fst request_files))"

definition getlist :: "(string \<times> file_storage) list \<Rightarrow> string \<Rightarrow> file_storage list" where
  "getlist request_files field = map snd (filter (\<lambda>kv. fst kv = field) request_files)"

text \<open>
  A Python dictionary with its insertion order, as a list of pairs:
  \<open>d.get(k, default)\<close> and \<open>d[k] = v\<close>.
\<close>

fun dict_get :: "('k \<times> 'v) list \<Rightarrow> 'k \<Rightarrow> 'v \<Rightarrow> 'v" where
  "dict_get [] k d = d"
| "dict_get ((k', v) # kvs) k d = (if k' = k then v else dict_get kvs k d)"

fun dict_set :: "('k \<times> 'v) list \<Rightarrow> 'k \<Rightarrow> 'v \<Rightarrow> ('k \<times> 'v) list" where
  "dict_set [] k v = [(k, v)]"
| "dict_set ((k', v') # kvs) k v =
     (if k' = k then (k, v) # kvs else (k', v') # dict_set kvs k v)"

text \<open>\<open>sum(d.values())\<close>.\<close>

definition sum_values :: "('k \<times> nat) list \<Rightarrow> nat" where
  "sum_values d = sum_list (map snd d)"

text \<open>
  The \<open>for file in files\<close> loop, which the two handlers share word for word but for
  the call of their own \<open>predict_image\<close>; that call is \<open>step\<close>, and \<open>s\<close> is the
  state it works on (the disk in \<open>backend/app.py\<close>, the global \<open>_model\<close> in
  \<open>api/index.py\<close>).
\<close>

fun classify_each ::
  "('s \<Rightarrow> file_storage \<Rightarrow> classification_result \<times> 's) \<Rightarrow> file_storage list
     \<Rightarrow> classification_result list \<Rightarrow> (string \<times> nat) list \<Rightarrow> 's
     \<Rightarrow> (classification_result list \<times> (string \<times> nat) list) \<times> 's" where
  "classify_each step [] results class_counts s = ((results, class_counts), s)"
| "classify_each step (file # files) results class_counts s =
     (if filename file = [] then classify_each step files results class_counts s
      else
        (case step s file of
           (result, s') \<Rightarrow>
             classify_each step files (results @ [result])
               (if result_class result \<noteq> ''error''
                then dict_set class_counts (result_class result)
                       (dict_get class_counts (result_class result) 0 + 1)
                else class_counts)
               s'))"

text \<open>The JSON bodies of the responses, with their status codes.\<close>

record batch_result =
  results :: "classification_result list"
  session_id :: "string option"
  class_counts :: "(string \<times> nat) list"
  total_images :: nat

datatype 'a body = ErrorJson string | Json 'a

type_synonym 'a response = "nat \<times> 'a body"

text \<open>
  \<open>predict\<close> of \<open>backend/app.py\<close>. \<open>now\<close> is
  \<open>datetime.now().strftime("%Y%m%d_%H%M%S")\<close>.
\<close>

definition predict_app ::
  "('img, 't, 'm, 'w) collaborators \<Rightarrow> 'm \<Rightarrow> string \<Rightarrow> (string \<times> file_storage) list \<Rightarrow> 'w
     \<Rightarrow> batch_result response \<times> 'w" where
  "predict_app lib model now request_files w =
     (if \<not> has_field request_files ''images''
      then ((400, ErrorJson ''No images provided''), w)
      else
        (let files = getlist request_files ''images''
         in if length files = 0 then ((400, ErrorJson ''No images provided''), w)
            else
              (case classify_each
                      (\<lambda>w file. predict_image_app lib model (stream file) (filename file) now w)
                      files [] [] w of
                 ((rs, counts), w') \<Rightarrow>
                   ((200, Json \<lparr>results = rs, session_id = Some now, class_counts = counts,
                                total_images = length rs\<rparr>), w'))))"

text \<open>\<open>predict\<close> of \<open>api/index.py\<close>.\<close>

definition predict_api ::
  "('img, 't, 'm, 'w) collaborators \<Rightarrow> (string \<times> file_storage) list \<Rightarrow> 'm model_state
     \<Rightarrow> batch_result response \<times> 'm model_state" where
  "predict_api lib request_files st =
     (if \<not> has_field request_files ''images''
      then ((400, ErrorJson ''No images provided''), st)
      else
        (let files = getlist request_files ''images''
         in if length files = 0 then ((400, ErrorJson ''No images provided''), st)
            else
              (case classify_each
                      (\<lambda>st file. predict_image_api lib (stream file) (filename file) st)
                      files [] [] st of
                 ((rs, counts), st') \<Rightarrow>
                   ((200, Json \<lparr>results = rs, session_id = None, class_counts = counts,
                                total_images = length rs\<rparr>), st'))))"

section \<open>Session store of \<open>backend/app.py\<close>\<close>

text \<open>
  What lies under \<open>OUTPUT_DIR\<close>: a tree of directories and files. The state of the
  store is the listing of \<open>OUTPUT_DIR\<close>, or \<open>None\<close> when there is nothing at that
  path. A session id reaches \<open>download\<close> through the route's string converter, so it is
  one path component; \<open>os.path.join(OUTPUT_DIR, name)\<close> is then the entry \<open>name\<close> of
  the listing. The components \<open>.\<close> and \<open>..\<close> are no entries of a listing and are
  given no meaning here.
\<close>

datatype node = File "8 word list" | Dir "(string \<times> node) list"

type_synonym store = "(string \<times> node) list option"

definition entry :: "store \<Rightarrow> string \<Rightarrow> node option" where
  "entry fs name = (case fs of None \<Rightarrow> None | Some es \<Rightarrow> map_of es name)"

text \<open>\<open>os.path.exists\<close> and \<open>os.path.isdir\<close> of \<open>os.path.join(OUTPUT_DIR, name)\<close>.\<close>

definition os_path_exists :: "store \<Rightarrow> string \<Rightarrow> bool" where
  "os_path_exists fs name = (entry fs name \<noteq> None)"

definition os_path_isdir :: "store \<Rightarrow> string \<Rightarrow> bool" where
  "os_path_isdir fs name = (case entry fs name of Some (Dir es) \<Rightarrow> True | _ \<Rightarrow> False)"

text \<open>\<open>os.path.exists(OUTPUT_DIR)\<close> and \<open>os.listdir(OUTPUT_DIR)\<close>.\<close>

definition output_dir_exists :: "store \<Rightarrow> bool" where
  "output_dir_exists fs = (fs \<noteq> None)"

definition os_listdir :: "store \<Rightarrow> string list" where
  "os_listdir fs = (case fs of None \<Rightarrow> [] | Some es \<Rightarrow> map fst es)"

text \<open>
  The two nested loops over \<open>os.walk(session_dir)\<close>: the files of a directory first,
  in the order of its listing, then the same for each of its subdirectories. Each file
  comes with its path relative to \<open>session_dir\<close> (\<open>arcname\<close>).
\<close>

definition relpath :: "string \<Rightarrow> string \<Rightarrow> string" where
  "relpath prefix name = (if prefix = [] then name else prefix @ ''/'' @ name)"

fun files_of :: "string \<Rightarrow> (string \<times> node) list \<Rightarrow> (string \<times> 8 word list) list" where
  "files_of prefix [] = []"
| "files_of prefix ((name, File bytes) # es) = (relpath prefix name, bytes) # files_of prefix es"
| "files_of prefix ((name, Dir sub) # es) = files_of prefix es"

fun walk_subdirs :: "string \<Rightarrow> (string \<times> node) list \<Rightarrow> (string \<times> 8 word list) list" where
  "walk_subdirs prefix [] = []"
| "walk_subdirs prefix ((name, File bytes) # es) = walk_subdirs prefix es"
| "walk_subdirs prefix ((name, Dir sub) # es) =
     files_of (relpath prefix name) sub @ walk_subdirs (relpath prefix name) sub
       @ walk_subdirs prefix es"

definition os_walk_files :: "store \<Rightarrow> string \<Rightarrow> (string \<times> 8 word list) list" where
  "os_walk_files fs name =
     (case entry fs name of
        Some (Dir es) \<Rightarrow> files_of [] es @ walk_subdirs [] es
      | _ \<Rightarrow> [])"

text \<open>
  Opening \<open>os.path.join(OUTPUT_DIR, name)\<close> for writing and leaving \<open>bytes\<close> there: a
  directory at that path raises, anything else is replaced.
\<close>

fun replace_entry :: "(string \<times> node) list \<Rightarrow> string \<Rightarrow> node \<Rightarrow> (string \<times> node) list" where
  "replace_entry [] name n = [(name, n)]"
| "replace_entry ((name', n') # es) name n =
     (if name' = name then (name, n) # es else (name', n') # replace_entry es name n)"

definition write_file :: "store \<Rightarrow> string \<Rightarrow> 8 word list \<Rightarrow> py_exn + store" where
  "write_file fs name bytes =
     (case fs of
        None \<Rightarrow>
          Inl (Raised (''[Errno 2] No such file or directory: '' @ os_path_join OUTPUT_DIR name))
      | Some es \<Rightarrow>
          (case map_of es name of
             Some (Dir sub) \<Rightarrow> Inl (IsADirectoryError (os_path_join OUTPUT_DIR name))
           | _ \<Rightarrow> Inr (Some (replace_entry es name (File bytes)))))"

text \<open>
  \<open>download\<close>. \<open>zip_bytes\<close> is the archive \<open>zipfile\<close> produces from the members it is
  given. An exception that leaves the handler goes to Flask (\<open>Inl\<close>). The archive is
  written to a path relative to the working directory, and \<open>send_file\<close> resolves the
  same path against the application's root path; the server is taken to run in the
  directory of \<open>app.py\<close>, where the two are one.
\<close>

datatype attachment = Attachment string "8 word list"

definition download ::
  "((string \<times> 8 word list) list \<Rightarrow> 8 word list) \<Rightarrow> string \<Rightarrow> store
     \<Rightarrow> (py_exn + attachment response) \<times> store" where
  "download zip_bytes sid fs =
     (if \<not> os_path_exists fs sid then (Inr (404, ErrorJson ''Session not found''), fs)
      else
        (let zip_filename = ''classified_images_'' @ sid @ ''.zip'';
             archive = zip_bytes (os_walk_files fs sid)
         in case write_file fs zip_filename archive of
              Inl e \<Rightarrow> (Inl e, fs)
            | Inr fs' \<Rightarrow> (Inr (200, Json (Attachment zip_filename archive)), fs')))"

text \<open>\<open>list_sessions\<close>.\<close>

definition list_sessions :: "store \<Rightarrow> string list response" where
  "list_sessions fs =
     (let sessions =
            (if output_dir_exists fs
             then filter (\<lambda>d. os_path_isdir fs d) (os_listdir fs)
             else [])
      in (200, Json sessions))"

section \<open>Notions of the specification\<close>

text \<open>
  What the loop is to achieve, written apart from it: one result for each input with a
  non-empty filename, in the order of the inputs, each of them what \<open>step\<close> returns in
  the state its predecessors left. Nothing of an earlier result decides whether a later
  input is processed.
\<close>

fun per_image_results ::
  "('s \<Rightarrow> file_storage \<Rightarrow> classification_result \<times> 's) \<Rightarrow> file_storage list \<Rightarrow> 's
     \<Rightarrow> classification_result list" where
  "per_image_results step [] s = []"
| "per_image_results step (file # files) s =
     (if filename file = [] then per_image_results step files s
      else (case step s file of (result, s') \<Rightarrow> result # per_image_results step files s'))"

text \<open>The two forms of a result.\<close>

definition success_form :: "classification_result \<Rightarrow> bool" where
  "success_form r = (result_class r \<noteq> ''error'' \<and> result_error r = None)"

definition failure_form :: "classification_result \<Rightarrow> bool" where
  "failure_form r = (result_class r = ''error'' \<and> result_error r \<noteq> None)"

section \<open>Concrete inputs\<close>

text \<open>
  Collaborators to run the handlers on: an image is its bytes, an empty byte string
  does not decode, the network answers with the first byte of the image modulo ten,
  and the disk is the list of the paths saved so far. A path that ends in \<open>.txt\<close>
  cannot be saved as an image.
\<close>

definition ends_with :: "string \<Rightarrow> string \<Rightarrow> bool" where
  "ends_with s suffix = (length suffix \<le> length s \<and> drop (length s - length suffix) s = suffix)"

definition sample_lib :: "(8 word list, int, unit, string list) collaborators" where
  "sample_lib =
     \<lparr>Image_open = (\<lambda>bytes. if bytes = [] then Inl (Raised ''cannot identify image file'')
                              else Inr bytes),
      mode = (\<lambda>img. ''RGB''),
      convert = (\<lambda>img m. Inr img),
      apply_transform = (\<lambda>img. Inr (int (unat (hd img)))),
      unsqueeze0 = (\<lambda>t. t),
      call_model = (\<lambda>m t. Inr (t mod 10)),
      softmax0 = (\<lambda>t. Inr t),
      torch_max1 = (\<lambda>t. Inr t),
      item_at = (\<lambda>t i. Inr (9 / 10)),
      py_round2 = (\<lambda>x. x),
      os_makedirs = (\<lambda>path w. (None, w)),
      image_save = (\<lambda>img path w. if ends_with path ''.txt''
                                   then (Some (Raised ''unknown file extension: .txt''), w)
                                   else (None, w @ [path])),
      hub_load = (\<lambda>n. if n = 0 then Inl (Raised ''HTTP Error 503'') else Inr ()),
      model_eval = (\<lambda>m. None)\<rparr>"

definition corrupt_file :: file_storage where
  "corrupt_file = \<lparr>filename = ''broken.jpg'', stream = []\<rparr>"

definition cat_file :: file_storage where
  "cat_file = \<lparr>filename = ''cat.jpg'', stream = [3, 1, 4]\<rparr>"

definition unnamed_file :: file_storage where
  "unnamed_file = \<lparr>filename = [], stream = [5]\<rparr>"

definition note_file :: file_storage where
  "note_file = \<lparr>filename = ''dog.txt'', stream = [5]\<rparr>"

definition sample_request :: "(string \<times> file_storage) list" where
  "sample_request =
     [(''images'', corrupt_file), (''images'', unnamed_file), (''images'', cat_file),
      (''images'', note_file)]"

text \<open>A store with one session of one saved image.\<close>

definition sample_store :: store where
  "sample_store = Some [(''20240101_120000'', Dir [(''cat'', Dir [(''a.png'', File [1, 2, 3])])])]"

text \<open>
  Collaborators in which exactly one call raises, chosen by \<open>k\<close>: 1 \<open>Image.open\<close>,
  2 \<open>convert\<close>, 3 \<open>transform\<close>, 4 the network, 5 \<open>softmax\<close>, 6 \<open>torch.max\<close>,
  8 \<open>probabilities[i].item()\<close>, 9 \<open>os.makedirs\<close>, 10 \<open>image.save\<close>,
  11 \<open>torch.hub.load\<close>, 12 \<open>_model.eval()\<close>; with 7 the network answers with the index 10, which the label
  table does not have. Every image is in mode \<open>L\<close>, so that it is converted.
\<close>

definition injected :: py_exn where
  "injected = Raised ''injected fault''"

definition faulty_lib :: "nat \<Rightarrow> (8 word list, int, unit, string list) collaborators" where
  "faulty_lib k =
     \<lparr>Image_open = (\<lambda>bytes. if k = 1 then Inl injected else Inr bytes),
      mode = (\<lambda>img. ''L''),
      convert = (\<lambda>img m. if k = 2 then Inl injected else Inr img),
      apply_transform = (\<lambda>img. if k = 3 then Inl injected else Inr 7),
      unsqueeze0 = (\<lambda>t. t),
      call_model = (\<lambda>m t. if k = 4 then Inl injected else Inr t),
      softmax0 = (\<lambda>t. if k = 5 then Inl injected else Inr t),
      torch_max1 = (\<lambda>t. if k = 6 then Inl injected else if k = 7 then Inr 10 else Inr t),
      item_at = (\<lambda>t i. if k = 8 then Inl injected else Inr (9 / 10)),
      py_round2 = (\<lambda>x. x),
      os_makedirs = (\<lambda>path w. if k = 9 then (Some injected, w) else (None, w)),
      image_save = (\<lambda>img path w. if k = 10 then (Some injected, w) else (None, w @ [path])),
      hub_load = (\<lambda>n. if k = 11 then Inl injected else Inr ()),
      model_eval = (\<lambda>m. if k = 12 then Some injected else None)\<rparr>"

definition fresh_process :: "unit model_state" where
  "fresh_process = \<lparr>model_global = None, loads = 0\<rparr>"

text \<open>An archiver to run \<open>download\<close> with: the members' bytes, one after the other.\<close>

definition stored_archive :: "(string \<times> 8 word list) list \<Rightarrow> 8 word list" where
  "stored_archive members = concat (map snd members)"

text \<open>\<open>sample_store\<close> after the download of its session.\<close>

definition sample_store_downloaded :: store where
  "sample_store_downloaded =
     Some [(''20240101_120000'', Dir [(''cat'', Dir [(''a.png'', File [1, 2, 3])])]),
           (''classified_images_20240101_120000.zip'', File [1, 2, 3])]"

text \<open>
  Collaborators for \<open>get_model\<close> in which every load succeeds and the network object
  of the n-th load is the number n, so that two loads give two different objects.
\<close>

definition counting_lib :: "(8 word list, int, nat, string list) collaborators" where
  "counting_lib =
     \<lparr>Image_open = (\<lambda>bytes. Inr bytes),
      mode = (\<lambda>img. ''RGB''),
      convert = (\<lambda>img m. Inr img),
      apply_transform = (\<lambda>img. Inr 7),
      unsqueeze0 = (\<lambda>t. t),
      call_model = (\<lambda>m t. Inr t),
      softmax0 = (\<lambda>t. Inr t),
      torch_max1 = (\<lambda>t. Inr t),
      item_at = (\<lambda>t i. Inr (9 / 10)),
      py_round2 = (\<lambda>x. x),
      os_makedirs = (\<lambda>path w. (None, w)),
      image_save = (\<lambda>img path w. (None, w @ [path])),
      hub_load = (\<lambda>n. Inr n),
      model_eval = (\<lambda>m. None)\<rparr>"

definition fresh_counting :: "nat model_state" where
  "fresh_counting = \<lparr>model_global = None, loads = 0\<rparr>"

section \<open>Properties\<close>

subsection \<open>Label table\<close>

lemma length_CIFAR10_CLASSES: "length CIFAR10_CLASSES = 10"
  by (simp add: CIFAR10_CLASSES_def)

lemma error_not_a_label: "''error'' \<notin> set CIFAR10_CLASSES"
  by (simp add: CIFAR10_CLASSES_def)

lemma py_getitem_Inr:
  "py_getitem xs i = Inr x \<Longrightarrow> x \<in> set xs"
  by (auto simp: py_getitem_def Let_def split: if_splits)

lemma labelOf_Inr_label: "labelOf i = Inr c \<Longrightarrow> c \<in> set CIFAR10_CLASSES"
  unfolding labelOf_def by (rule py_getitem_Inr)

lemma labelOf_Inr_not_error: "labelOf i = Inr c \<Longrightarrow> c \<noteq> ''error''"
  using labelOf_Inr_label error_not_a_label by blast

text \<open>
  Claim C7, as the code has it. \<open>labelOf\<close> is the subscript of a Python list: it
  returns a class name for the indices 0..9 and, a negative index counting from the
  end, for -10..-1 as well; it raises \<open>IndexError\<close> for every other integer.
\<close>

theorem labelOf_python_index:
  "labelOf i =
     (if 0 \<le> i \<and> i \<le> 9 then Inr (CIFAR10_CLASSES ! nat i)
      else if - 10 \<le> i \<and> i < 0 then Inr (CIFAR10_CLASSES ! nat (i + 10))
      else Inl IndexError)
   \<and> ((\<exists>c. labelOf i = Inr c \<and> c \<in> set CIFAR10_CLASSES) \<longleftrightarrow> - 10 \<le> i \<and> i \<le> 9)
   \<and> (labelOf i = Inl IndexError \<longleftrightarrow> i < - 10 \<or> 9 < i)"
proof -
  have eq: "labelOf i =
     (if 0 \<le> i \<and> i \<le> 9 then Inr (CIFAR10_CLASSES ! nat i)
      else if - 10 \<le> i \<and> i < 0 then Inr (CIFAR10_CLASSES ! nat (i + 10))
      else Inl IndexError)"
    by (simp add: labelOf_def py_getitem_def Let_def length_CIFAR10_CLASSES)
  have in_range: "(\<exists>c. labelOf i = Inr c \<and> c \<in> set CIFAR10_CLASSES) \<longleftrightarrow> - 10 \<le> i \<and> i \<le> 9"
  proof
    assume "\<exists>c. labelOf i = Inr c \<and> c \<in> set CIFAR10_CLASSES"
    then show "- 10 \<le> i \<and> i \<le> 9"
      using eq by (auto split: if_splits)
  next
    assume r: "- 10 \<le> i \<and> i \<le> 9"
    then obtain c where c: "labelOf i = Inr c"
      using eq by (auto split: if_splits)
    then show "\<exists>c. labelOf i = Inr c \<and> c \<in> set CIFAR10_CLASSES"
      using labelOf_Inr_label by blast
  qed
  have out: "labelOf i = Inl IndexError \<longleftrightarrow> i < - 10 \<or> 9 < i"
    using eq by (auto split: if_splits)
  show ?thesis
    using eq in_range out by blast
qed

theorem labelOf_python_index_witness:
  "labelOf 3 = Inr ''cat'' \<and> labelOf (- 10) = Inr ''airplane''
   \<and> labelOf 10 = Inl IndexError \<and> labelOf (- 11) = Inl IndexError"
  using labelOf_python_index [of 3] labelOf_python_index [of "- 10"]
    labelOf_python_index [of 10] labelOf_python_index [of "- 11"]
  by (simp add: CIFAR10_CLASSES_def)

text \<open>
  Claim C7 as stated fails: the index -1 is outside 0..9, and the lookup returns the
  last class name instead of failing.
\<close>

theorem labelOf_minus_one_counterexample:
  "\<not> (0 \<le> (- 1 :: int) \<and> (- 1 :: int) \<le> 9) \<and> labelOf (- 1) = Inr ''truck''
   \<and> labelOf (- 1) \<noteq> Inl IndexError"
  by (simp add: labelOf_def py_getitem_def CIFAR10_CLASSES_def)

subsection \<open>Floating-point rounding\<close>

text \<open>
  Rounding to 32 bits moves a number by at most the fraction \<open>2^-24\<close> of itself, or by
  \<open>2^-150\<close> among the subnormal numbers; it keeps a number of [0,1] in [0,1].
\<close>

lemma pow2_pos: "0 < pow2 e"
  by (simp add: pow2_def)

lemma pow2_succ: "pow2 (e + 1) = 2 * pow2 e"
  by (simp add: pow2_def power_int_add_1')

lemma pow2_pred: "pow2 (e - 1) = pow2 e / 2"
  using pow2_succ [of "e - 1"] by simp

lemma pow2_0: "pow2 0 = 1"
  by (simp add: pow2_def)

lemma pow2_mono: "a \<le> b \<Longrightarrow> pow2 a \<le> pow2 b"
  by (simp add: pow2_def power_int_increasing)

lemma pow2_neg: "0 \<le> n \<Longrightarrow> pow2 (- n) = 1 / 2 ^ nat n"
  by (simp add: pow2_def power_int_def field_simps)

lemma pow2_nonneg: "0 \<le> n \<Longrightarrow> pow2 n = 2 ^ nat n"
  by (simp add: pow2_def power_int_def)

lemma round_even_error: "\<bar>of_int (round_even t) - t\<bar> \<le> 1 / 2"
proof -
  have "of_int \<lfloor>t\<rfloor> \<le> t" "t < of_int \<lfloor>t\<rfloor> + 1"
    by linarith+
  then show ?thesis
    by (auto simp: round_even_def Let_def abs_le_iff)
qed

lemma round_even_nonneg: "0 \<le> t \<Longrightarrow> 0 \<le> round_even t"
proof -
  assume "0 \<le> t"
  then have "0 \<le> \<lfloor>t\<rfloor>" by simp
  then show ?thesis
    by (auto simp: round_even_def Let_def)
qed

lemma round_even_le: "t \<le> of_int n \<Longrightarrow> round_even t \<le> n"
proof -
  assume h: "t \<le> of_int n"
  have "\<bar>of_int (round_even t) - t\<bar> \<le> 1 / 2"
    by (rule round_even_error)
  then have "of_int (round_even t) \<le> t + 1 / 2"
    by linarith
  then have "(of_int (round_even t) :: real) < of_int n + 1"
    using h by linarith
  then have "(of_int (round_even t) :: real) < of_int (n + 1)"
    by simp
  then have "round_even t < n + 1"
    by (simp only: of_int_less_iff)
  then show ?thesis by simp
qed

lemma binade_ge1: "1 \<le> a \<Longrightarrow> pow2 (binade fuel a) \<le> a \<and> 0 \<le> binade fuel a"
proof (induction fuel arbitrary: a)
  case 0
  then show ?case by (simp add: pow2_0)
next
  case (Suc fuel)
  show ?case
  proof (cases "2 \<le> a")
    case True
    then have "1 \<le> a / 2" by simp
    from Suc.IH [OF this] show ?thesis
      using True by (simp add: pow2_succ)
  next
    case False
    then show ?thesis
      using Suc.prems by (simp add: pow2_0)
  qed
qed

lemma binade_lt2: "a < 2 \<Longrightarrow> binade fuel a \<le> 0"
proof (induction fuel arbitrary: a)
  case 0
  then show ?case by simp
next
  case (Suc fuel)
  show ?case
  proof (cases "a < 1")
    case True
    then have "2 * a < 2" by simp
    from Suc.IH [OF this] show ?thesis
      using True Suc.prems by simp
  next
    case False
    then show ?thesis
      using Suc.prems by simp
  qed
qed

lemma binade_lt1:
  "0 < a \<Longrightarrow> a < 1 \<Longrightarrow> pow2 (binade fuel a) \<le> a \<or> binade fuel a = - int fuel"
proof (induction fuel arbitrary: a)
  case 0
  then show ?case by simp
next
  case (Suc fuel)
  show ?case
  proof (cases "2 * a < 1")
    case True
    have "0 < 2 * a" using Suc.prems by simp
    from Suc.IH [OF this True] show ?thesis
      using Suc.prems by (auto simp: pow2_pred)
  next
    case False
    then have r: "1 \<le> 2 * a" "2 * a < 2"
      using Suc.prems by simp_all
    have "binade fuel (2 * a) = 0"
      using binade_ge1 [OF r(1), of fuel] binade_lt2 [OF r(2), of fuel] by simp
    then have "binade (Suc fuel) a = - 1"
      using Suc.prems by simp
    moreover have "pow2 (- 1) \<le> a"
      using r(1) by (simp add: pow2_def)
    ultimately show ?thesis by simp
  qed
qed

lemma round_float_error:
  "\<bar>round_float p emin x - x\<bar> \<le> pow2 (max emin (binade 1100 \<bar>x\<bar>) - int p)"
proof (cases "x = 0")
  case True
  then show ?thesis
    using pow2_pos [of "max emin (binade 1100 \<bar>x\<bar>) - int p"] by (simp add: round_float_def)
next
  case False
  let ?e = "max emin (binade 1100 \<bar>x\<bar>)"
  let ?q = "pow2 (?e - int p + 1)"
  have q: "0 < ?q" by (rule pow2_pos)
  have "round_float p emin x - x = (of_int (round_even (x / ?q)) - x / ?q) * ?q"
    using False q by (simp add: round_float_def Let_def field_simps)
  then have "\<bar>round_float p emin x - x\<bar> = \<bar>of_int (round_even (x / ?q)) - x / ?q\<bar> * ?q"
    using q by (simp add: abs_mult)
  also have "\<dots> \<le> (1 / 2) * ?q"
    using round_even_error [of "x / ?q"] q by (intro mult_right_mono) simp_all
  also have "\<dots> = pow2 (?e - int p)"
    using pow2_succ [of "?e - int p"] by simp
  finally show ?thesis .
qed

lemma float32_error: "\<bar>float32 x - x\<bar> \<le> \<bar>x\<bar> / 2 ^ 24 + 1 / 2 ^ 150"
proof (cases "x = 0")
  case True
  then show ?thesis by (simp add: float32_def round_float_def)
next
  case False
  let ?b = "binade 1100 \<bar>x\<bar>"
  have err: "\<bar>float32 x - x\<bar> \<le> pow2 (max (- 126) ?b - 24)"
    using round_float_error [of 24 "- 126" x] by (simp add: float32_def)
  have sub: "pow2 (- 126 - 24) = 1 / 2 ^ 150"
    using pow2_neg [of 150] by simp
  have scale: "pow2 (?b - 24) = pow2 ?b / 2 ^ 24"
    by (simp add: pow2_def power_int_diff)
  have low: "pow2 ?b \<le> \<bar>x\<bar> \<or> ?b \<le> - 126"
  proof (cases "1 \<le> \<bar>x\<bar>")
    case True
    then show ?thesis using binade_ge1 [of "\<bar>x\<bar>" 1100] by simp
  next
    case False
    then have "0 < \<bar>x\<bar>" "\<bar>x\<bar> < 1"
      using \<open>x \<noteq> 0\<close> by simp_all
    then show ?thesis
      using binade_lt1 [of "\<bar>x\<bar>" 1100] by auto
  qed
  show ?thesis
  proof (cases "?b \<le> - 126")
    case True
    then have "max (- 126) ?b = - 126" by simp
    then have "\<bar>float32 x - x\<bar> \<le> 1 / 2 ^ 150"
      using err sub by simp
    moreover have "0 \<le> \<bar>x\<bar> / 2 ^ 24" by simp
    ultimately show ?thesis by linarith
  next
    case False
    then have m: "max (- 126) ?b = ?b" by simp
    have "pow2 ?b \<le> \<bar>x\<bar>"
      using low False by simp
    then have "pow2 ?b / 2 ^ 24 \<le> \<bar>x\<bar> / 2 ^ 24"
      by (simp add: divide_right_mono)
    then have "\<bar>float32 x - x\<bar> \<le> \<bar>x\<bar> / 2 ^ 24"
      using err m scale by simp
    moreover have "(0::real) \<le> 1 / 2 ^ 150" by simp
    ultimately show ?thesis by linarith
  qed
qed

lemma float32_nonneg: "0 \<le> x \<Longrightarrow> 0 \<le> float32 x"
proof -
  assume h: "0 \<le> x"
  let ?q = "pow2 (max (- 126) (binade 1100 \<bar>x\<bar>) - int 24 + 1)"
  have q: "0 < ?q" by (rule pow2_pos)
  have "0 \<le> x / ?q" using h q by simp
  then have "0 \<le> round_even (x / ?q)" by (rule round_even_nonneg)
  then have "0 \<le> real_of_int (round_even (x / ?q)) * ?q"
    using q by simp
  then show ?thesis
    by (simp add: float32_def round_float_def Let_def)
qed

lemma float32_le_one: "x \<le> 1 \<Longrightarrow> float32 x \<le> 1"
proof (cases "x \<le> 0")
  case True
  let ?q = "pow2 (max (- 126) (binade 1100 \<bar>x\<bar>) - int 24 + 1)"
  have q: "0 < ?q" by (rule pow2_pos)
  have "x / ?q \<le> of_int 0" using True q by (simp add: divide_le_0_iff)
  then have "round_even (x / ?q) \<le> 0" by (rule round_even_le)
  then have "real_of_int (round_even (x / ?q)) * ?q \<le> 0"
    using q by (simp add: mult_le_0_iff)
  then show ?thesis
    by (simp add: float32_def round_float_def Let_def)
next
  case False
  assume h: "x \<le> 1"
  define e where "e = max (- 126) (binade 1100 \<bar>x\<bar>)"
  define q where "q = pow2 (e - int 24 + 1)"
  have q: "0 < q" unfolding q_def by (rule pow2_pos)
  have fl: "float32 x = real_of_int (round_even (x / q)) * q"
    using False by (simp add: float32_def round_float_def Let_def q_def e_def)
  have "\<bar>x\<bar> < 2" using h False by simp
  then have "binade 1100 \<bar>x\<bar> \<le> 0" by (rule binade_lt2)
  then have e: "e \<le> 0" by (simp add: e_def)
  define n where "n = 23 - e"
  have n: "0 \<le> n" using e by (simp add: n_def)
  have "q = pow2 (- n)" by (simp add: q_def n_def)
  then have qn: "q = 1 / 2 ^ nat n"
    using pow2_neg [OF n] by simp
  have "x / q = x * 2 ^ nat n" by (simp add: qn)
  also have "\<dots> \<le> 2 ^ nat n" using h by simp
  also have "\<dots> = real_of_int (2 ^ nat n)" by simp
  finally have "round_even (x / q) \<le> 2 ^ nat n" by (rule round_even_le)
  then have "real_of_int (round_even (x / q)) \<le> real_of_int (2 ^ nat n)"
    by (simp only: of_int_le_iff)
  then have "real_of_int (round_even (x / q)) * q \<le> real_of_int (2 ^ nat n) * q"
    using q by (intro mult_right_mono) simp_all
  also have "\<dots> = 1" by (simp add: qn)
  finally show ?thesis
    by (simp add: fl)
qed

subsection \<open>Preprocessing pipeline\<close>

lemma scaled_exact: "scaled v = float32 (real (unat v) / 255)"
  by (simp add: scaled_def)

lemma byte_fraction: "0 \<le> real (unat v) / 255 \<and> real (unat v) / 255 \<le> 1" for v :: "8 word"
proof -
  have "unat v < 2 ^ 8"
    using unsigned_less [of v, where ?'a = nat] by simp
  then have "unat v \<le> 255"
    by simp
  then have "real (unat v) \<le> real 255"
    by (rule of_nat_mono)
  moreover have "0 \<le> real (unat v)"
    by (rule of_nat_0_le_iff)
  ultimately show ?thesis
    by (simp only: of_nat_numeral) simp
qed

lemma scaled_bounds: "0 \<le> scaled v \<and> scaled v \<le> 1"
  using byte_fraction [of v] float32_nonneg float32_le_one by (simp add: scaled_def)

lemma scaled_error: "\<bar>scaled v - real (unat v) / 255\<bar> \<le> 1 / 10 ^ 7"
proof -
  let ?X = "real (unat v) / 255"
  have X: "0 \<le> ?X" "?X \<le> 1"
    using byte_fraction [of v] by simp_all
  have "\<bar>float32 ?X - ?X\<bar> \<le> \<bar>?X\<bar> / 2 ^ 24 + 1 / 2 ^ 150"
    by (rule float32_error)
  also have "\<dots> \<le> 1 / 2 ^ 24 + 1 / 2 ^ 150"
    using X by (simp add: divide_right_mono)
  also have "\<dots> \<le> 1 / 10 ^ 7"
    by simp
  finally show ?thesis
    by (simp add: scaled_def)
qed

text \<open>
  The rounding errors of one element add up to less than two millionths, for a mean in
  [0,1] and a std of at least 0.199 whose 32-bit values are within \<open>2 / 10^8\<close> of
  them.
\<close>

lemma normalize_value_error:
  assumes X: "0 \<le> X" "X \<le> 1"
    and m: "0 \<le> m" "m \<le> 1" "0 \<le> as_float32 m" "as_float32 m \<le> 1"
      "\<bar>as_float32 m - m\<bar> \<le> 2 / 10 ^ 8"
    and s: "199 / 1000 \<le> s" "199 / 1000 \<le> as_float32 s"
      "\<bar>as_float32 s - s\<bar> \<le> 2 / 10 ^ 8"
  shows "\<bar>normalize_value m s (float32 X) - (X - m) / s\<bar> \<le> 2 / 10 ^ 6"
proof -
  define x1 where "x1 = float32 X"
  define m' where "m' = as_float32 m"
  define s' where "s' = as_float32 s"
  define d where "d = float32 (x1 - m')"
  define q where "q = d / s'"
  have m5: "\<bar>as_float32 m - m\<bar> \<le> 2 / 100000000"
    using m(5) by simp
  have s3: "\<bar>as_float32 s - s\<bar> \<le> 2 / 100000000"
    using s(3) by simp
  have s'pos: "0 < s'" and spos: "0 < s"
    using s by (simp_all add: s'_def)
  have x1: "0 \<le> x1" "x1 \<le> 1"
    using X float32_nonneg float32_le_one by (simp_all add: x1_def)
  have "\<bar>x1 - X\<bar> \<le> \<bar>X\<bar> / 2 ^ 24 + 1 / 2 ^ 150"
    unfolding x1_def by (rule float32_error)
  also have "\<dots> \<le> 1 / 2 ^ 24 + 1 / 2 ^ 150"
    using X by (simp add: divide_right_mono)
  also have "\<dots> \<le> 6 / 100000000"
    by simp
  finally have e1: "\<bar>x1 - X\<bar> \<le> 6 / 100000000" .
  have d0: "\<bar>x1 - m'\<bar> \<le> 1"
    using x1 m(3,4) unfolding m'_def by linarith
  have "\<bar>d - (x1 - m')\<bar> \<le> \<bar>x1 - m'\<bar> / 2 ^ 24 + 1 / 2 ^ 150"
    unfolding d_def by (rule float32_error)
  also have "\<dots> \<le> 1 / 2 ^ 24 + 1 / 2 ^ 150"
    using d0 by (simp add: divide_right_mono)
  also have "\<dots> \<le> 6 / 100000000"
    by simp
  finally have e2: "\<bar>d - (x1 - m')\<bar> \<le> 6 / 100000000" .
  have e3: "\<bar>d - (X - m)\<bar> \<le> 14 / 100000000"
    using e1 e2 m5 unfolding m'_def by linarith
  have dabs: "\<bar>d\<bar> \<le> 101 / 100"
    using e2 d0 by linarith
  have "\<bar>q\<bar> = \<bar>d\<bar> / s'"
    using s'pos by (simp add: q_def)
  also have "\<dots> \<le> (101 / 100) / (199 / 1000)"
    using dabs s(2) by (intro frac_le) (simp_all add: s'_def)
  finally have qabs: "\<bar>q\<bar> \<le> 51 / 10"
    by simp
  have "\<bar>float32 q - q\<bar> \<le> \<bar>q\<bar> / 2 ^ 24 + 1 / 2 ^ 150"
    by (rule float32_error)
  also have "\<dots> \<le> (51 / 10) / 2 ^ 24 + 1 / 2 ^ 150"
    using qabs by (simp add: divide_right_mono)
  also have "\<dots> \<le> 31 / 100000000"
    by simp
  finally have e4: "\<bar>float32 q - q\<bar> \<le> 31 / 100000000" .
  have "q - (X - m) / s' = (d - (X - m)) / s'"
    by (simp add: q_def diff_divide_distrib)
  then have "\<bar>q - (X - m) / s'\<bar> = \<bar>d - (X - m)\<bar> / s'"
    using s'pos by simp
  also have "\<dots> \<le> (14 / 100000000) / (199 / 1000)"
    using e3 s(2) by (intro frac_le) (simp_all add: s'_def)
  finally have e5: "\<bar>q - (X - m) / s'\<bar> \<le> 71 / 100000000"
    by simp
  have D: "\<bar>X - m\<bar> \<le> 1"
    using X m(1,2) by linarith
  have "(X - m) / s' - (X - m) / s = (X - m) * (s - s') / (s * s')"
    using s'pos spos by (simp add: field_simps)
  then have "\<bar>(X - m) / s' - (X - m) / s\<bar> = \<bar>X - m\<bar> * \<bar>s - s'\<bar> / (s * s')"
    using s'pos spos by (simp add: abs_mult)
  also have "\<dots> \<le> (1 * (2 / 100000000)) / ((199 / 1000) * (199 / 1000))"
  proof (intro frac_le mult_mono)
    show "\<bar>s - s'\<bar> \<le> 2 / 100000000"
      using s3 by (simp add: s'_def abs_minus_commute)
  qed (use D s s'pos spos in \<open>simp_all add: s'_def\<close>)
  finally have e6: "\<bar>(X - m) / s' - (X - m) / s\<bar> \<le> 51 / 100000000"
    by simp
  have "normalize_value m s (float32 X) = float32 q"
    by (simp add: normalize_value_def q_def d_def x1_def m'_def s'_def)
  moreover have "\<bar>float32 q - (X - m) / s\<bar> \<le> 2 / 1000000"
    using e4 e5 e6 by linarith
  ultimately show ?thesis
    by simp
qed

lemma as_float32_mean:
  "map as_float32 cifar_mean = [2061081 / 4194304, 16179947 / 33554432, 7491027 / 16777216]"
  by code_simp

lemma as_float32_std:
  "map as_float32 cifar_std = [13576123 / 67108864, 13381507 / 67108864, 6744441 / 33554432]"
  by code_simp

lemma as_float32_std_main:
  "map as_float32 cifar_std_main = [16575889 / 67108864, 1021313 / 4194304, 8777839 / 33554432]"
  by code_simp

lemma below_three: "c < 3 \<Longrightarrow> c = 0 \<or> c = 1 \<or> c = (2::nat)"
  by arith

lemma mean_facts:
  assumes "c < 3"
  shows "0 \<le> cifar_mean ! c \<and> cifar_mean ! c \<le> 1
         \<and> 0 \<le> as_float32 (cifar_mean ! c) \<and> as_float32 (cifar_mean ! c) \<le> 1
         \<and> \<bar>as_float32 (cifar_mean ! c) - cifar_mean ! c\<bar> \<le> 2 / 10 ^ 8"
proof -
  have len: "c < length cifar_mean"
    using assms by (simp add: cifar_mean_def)
  have v: "as_float32 (cifar_mean ! c) = [2061081 / 4194304, 16179947 / 33554432, 7491027 / 16777216] ! c"
    using nth_map [OF len, of as_float32] by (simp only: as_float32_mean)
  show ?thesis
    using below_three [OF assms] by (simp only: v) (auto simp: cifar_mean_def)
qed

lemma std_facts:
  assumes "c < 3"
  shows "199 / 1000 \<le> cifar_std ! c \<and> 199 / 1000 \<le> as_float32 (cifar_std ! c)
         \<and> \<bar>as_float32 (cifar_std ! c) - cifar_std ! c\<bar> \<le> 2 / 10 ^ 8"
proof -
  have len: "c < length cifar_std"
    using assms by (simp add: cifar_std_def)
  have v: "as_float32 (cifar_std ! c) = [13576123 / 67108864, 13381507 / 67108864, 6744441 / 33554432] ! c"
    using nth_map [OF len, of as_float32] by (simp only: as_float32_std)
  show ?thesis
    using below_three [OF assms] by (simp only: v) (auto simp: cifar_std_def)
qed

lemma std_main_facts:
  assumes "c < 3"
  shows "199 / 1000 \<le> cifar_std_main ! c \<and> 199 / 1000 \<le> as_float32 (cifar_std_main ! c)
         \<and> \<bar>as_float32 (cifar_std_main ! c) - cifar_std_main ! c\<bar> \<le> 2 / 10 ^ 8"
proof -
  have len: "c < length cifar_std_main"
    using assms by (simp add: cifar_std_main_def)
  have v: "as_float32 (cifar_std_main ! c) = [16575889 / 67108864, 1021313 / 4194304, 8777839 / 33554432] ! c"
    using nth_map [OF len, of as_float32] by (simp only: as_float32_std_main)
  show ?thesis
    using below_three [OF assms] by (simp only: v) (auto simp: cifar_std_main_def)
qed

lemma Resize_grid:
  assumes "\<And>im. is_grid h w (resample (h, w) im)"
  shows "is_grid h w (Resize resample (h, w) img)"
  using assms by (simp add: Resize_def)

lemma is_grid_map: "is_grid h w rows \<Longrightarrow> is_grid h w (map (map f) rows)"
  by (simp add: is_grid_def list_all_length)

lemma ToTensor_shape:
  "is_grid h w img \<Longrightarrow> length (ToTensor img) = 3 \<and> list_all (is_grid h w) (ToTensor img)"
  by (simp add: ToTensor_def is_grid_map)

lemma Normalize_three:
  "length t = 3 \<Longrightarrow>
   Normalize [m0, m1, m2] [s0, s1, s2] t =
     [map (map (normalize_value m0 s0)) (t ! 0),
      map (map (normalize_value m1 s1)) (t ! 1),
      map (map (normalize_value m2 s2)) (t ! 2)]"
proof -
  assume "length t = 3"
  then obtain a b c where t: "t = [a, b, c]"
    by (auto simp: length_Suc_conv numeral_3_eq_3)
  show ?thesis
    by (simp add: t Normalize_def)
qed

lemma ToTensor_nth:
  assumes "is_grid h w img" "c < 3" "y < h" "x < w"
  shows "ToTensor img ! c ! y ! x = scaled (channel c (img ! y ! x))"
proof -
  have ly: "y < length img" and lx: "x < length (img ! y)"
    using assms by (simp_all add: is_grid_def list_all_length)
  show ?thesis
    using below_three [OF assms(2)] ly lx by (auto simp: ToTensor_def channel_def)
qed

lemma Normalize_nth:
  assumes "length t = 3" "is_grid h w (t ! c)" "c < 3" "y < h" "x < w"
  shows "Normalize [m0, m1, m2] [s0, s1, s2] t ! c ! y ! x =
           normalize_value ([m0, m1, m2] ! c) ([s0, s1, s2] ! c) (t ! c ! y ! x)"
proof -
  have ly: "y < length (t ! c)" and lx: "x < length (t ! c ! y)"
    using assms by (simp_all add: is_grid_def list_all_length)
  show ?thesis
    using below_three [OF assms(3)] ly lx by (auto simp: Normalize_three [OF assms(1)])
qed

lemma Normalize_shape:
  assumes "length t = 3" "list_all (is_grid h w) t"
  shows "length (Normalize [m0, m1, m2] [s0, s1, s2] t) = 3
         \<and> list_all (is_grid h w) (Normalize [m0, m1, m2] [s0, s1, s2] t)"
proof -
  obtain a b c where t: "t = [a, b, c]"
    using assms(1) by (auto simp: length_Suc_conv numeral_3_eq_3)
  show ?thesis
    using assms(2) by (simp add: t Normalize_def is_grid_map)
qed

lemma zero_image_grid: "is_grid 32 32 zero_image"
  by (simp add: is_grid_def zero_image_def list_all_length)

lemma scaled_zero: "scaled 0 = 0"
  by (simp add: scaled_def float32_def round_float_def)

lemma ToTensor_zero_image:
  "ToTensor zero_image = [replicate 32 (replicate 32 0), replicate 32 (replicate 32 0),
                          replicate 32 (replicate 32 0)]"
  by (simp add: ToTensor_def zero_image_def scaled_zero red_def green_def blue_def)

lemma Normalize_zero:
  "Normalize [m0, m1, m2] [s0, s1, s2]
     [replicate 32 (replicate 32 0), replicate 32 (replicate 32 0), replicate 32 (replicate 32 0)]
   = map (\<lambda>z. replicate 32 (replicate 32 z))
       [normalize_value m0 s0 0, normalize_value m1 s1 0, normalize_value m2 s2 0]"
  by (simp add: Normalize_def)

lemma zero_values:
  "[normalize_value 0.4914 0.2023 0, normalize_value 0.4822 0.1994 0,
    normalize_value 0.4465 0.2010 0]
     = [- 636765 / 262144, - 633931 / 262144, - 4658599 / 2097152]"
  by code_simp

lemma zero_values_main:
  "[normalize_value 0.4914 0.2470 0, normalize_value 0.4822 0.2435 0,
    normalize_value 0.4465 0.2616 0]
     = [- 16688915 / 8388608, - 1038241 / 524288, - 14317713 / 8388608]"
  by code_simp

lemma nearest_grid: "is_grid h w (nearest (h, w) img)"
  by (simp add: nearest_def is_grid_def list_all_length)

lemma transform_nth:
  assumes "is_grid 32 32 (Resize resample (32, 32) img)" "c < 3" "y < 32" "x < 32"
  shows "transform resample img ! c ! y ! x
           = normalize_value (cifar_mean ! c) (cifar_std ! c)
               (scaled (channel c (Resize resample (32, 32) img ! y ! x)))"
    and "transform_main resample img ! c ! y ! x
           = normalize_value (cifar_mean ! c) (cifar_std_main ! c)
               (scaled (channel c (Resize resample (32, 32) img ! y ! x)))"
proof -
  let ?t = "ToTensor (Resize resample (32, 32) img)"
  have tshape: "length ?t = 3" "list_all (is_grid 32 32) ?t"
    using ToTensor_shape [OF assms(1)] by simp_all
  have g: "is_grid 32 32 (?t ! c)"
    using tshape assms(2) by (simp add: list_all_length)
  have tn: "?t ! c ! y ! x = scaled (channel c (Resize resample (32, 32) img ! y ! x))"
    using ToTensor_nth [OF assms] .
  show "transform resample img ! c ! y ! x
           = normalize_value (cifar_mean ! c) (cifar_std ! c)
               (scaled (channel c (Resize resample (32, 32) img ! y ! x)))"
    unfolding transform_def cifar_mean_def cifar_std_def
    using Normalize_nth [OF tshape(1) g assms(2,3,4)] tn by simp
  show "transform_main resample img ! c ! y ! x
           = normalize_value (cifar_mean ! c) (cifar_std_main ! c)
               (scaled (channel c (Resize resample (32, 32) img ! y ! x)))"
    unfolding transform_main_def cifar_mean_def cifar_std_main_def
    using Normalize_nth [OF tshape(1) g assms(2,3,4)] tn by simp
qed

lemma zero_tolerance:
  assumes "c < 3"
  shows "\<bar>[- 636765 / 262144, - 633931 / 262144, - 4658599 / 2097152] ! c
            - (0 - cifar_mean ! c) / cifar_std ! c\<bar> \<le> 2 / 10 ^ 6
         \<and> \<bar>[- 16688915 / 8388608, - 1038241 / 524288, - 14317713 / 8388608] ! c
            - (0 - cifar_mean ! c) / cifar_std_main ! c\<bar> \<le> 2 / 10 ^ 6"
  using below_three [OF assms]
  by (auto simp: cifar_mean_def cifar_std_def cifar_std_main_def)

text \<open>
  Claim C6, as the code has it. With a resampling filter that returns images of the
  requested size, the pipeline resizes every image it is given to 32 x 32, scales each
  channel value \<open>v\<close> to the 32-bit float nearest \<open>v / 255\<close>, which lies in [0,1], and
  applies \<open>output[c] = (scaled[c] - mean[c]) / std[c]\<close> in 32-bit floating point, each
  operation rounded, with mean = [0.4914, 0.4822, 0.4465]; the std is
  [0.2023, 0.1994, 0.2010] in \<open>backend/app.py\<close> and \<open>api/index.py\<close> and
  [0.2470, 0.2435, 0.2616] in \<open>main.py\<close>. Every output is within \<open>2 / 10^6\<close> of the
  exact value of the formula with the std of its file. On the all-zero 32 x 32 image each
  channel is the constant given below, the 32-bit result of \<open>(0 - mean[c]) / std[c]\<close>.
\<close>

theorem transform_formula:
  assumes "\<And>im. is_grid 32 32 (resample (32, 32) im)"
  shows
    "is_grid 32 32 (Resize resample (32, 32) img)
     \<and> length (transform resample img) = 3
     \<and> list_all (is_grid 32 32) (transform resample img)
     \<and> length (transform_main resample img) = 3
     \<and> list_all (is_grid 32 32) (transform_main resample img)
     \<and> (\<forall>c<3. \<forall>y<32. \<forall>x<32.
          ToTensor (Resize resample (32, 32) img) ! c ! y ! x
            = float32 (real (unat (channel c (Resize resample (32, 32) img ! y ! x))) / 255)
          \<and> 0 \<le> ToTensor (Resize resample (32, 32) img) ! c ! y ! x
          \<and> ToTensor (Resize resample (32, 32) img) ! c ! y ! x \<le> 1
          \<and> \<bar>ToTensor (Resize resample (32, 32) img) ! c ! y ! x
               - real (unat (channel c (Resize resample (32, 32) img ! y ! x))) / 255\<bar>
              \<le> 1 / 10 ^ 7
          \<and> transform resample img ! c ! y ! x
              = float32 (float32 (ToTensor (Resize resample (32, 32) img) ! c ! y ! x
                                   - as_float32 (cifar_mean ! c))
                         / as_float32 (cifar_std ! c))
          \<and> \<bar>transform resample img ! c ! y ! x
               - (real (unat (channel c (Resize resample (32, 32) img ! y ! x))) / 255
                    - cifar_mean ! c) / cifar_std ! c\<bar>
              \<le> 2 / 10 ^ 6
          \<and> transform_main resample img ! c ! y ! x
              = float32 (float32 (ToTensor (Resize resample (32, 32) img) ! c ! y ! x
                                   - as_float32 (cifar_mean ! c))
                         / as_float32 (cifar_std_main ! c))
          \<and> \<bar>transform_main resample img ! c ! y ! x
               - (real (unat (channel c (Resize resample (32, 32) img ! y ! x))) / 255
                    - cifar_mean ! c) / cifar_std_main ! c\<bar>
              \<le> 2 / 10 ^ 6)
     \<and> transform resample zero_image
         = map (\<lambda>z. replicate 32 (replicate 32 z))
             [- 636765 / 262144, - 633931 / 262144, - 4658599 / 2097152]
     \<and> transform_main resample zero_image
         = map (\<lambda>z. replicate 32 (replicate 32 z))
             [- 16688915 / 8388608, - 1038241 / 524288, - 14317713 / 8388608]
     \<and> (\<forall>c<3.
          \<bar>[- 636765 / 262144, - 633931 / 262144, - 4658599 / 2097152] ! c
            - (0 - cifar_mean ! c) / cifar_std ! c\<bar> \<le> 2 / 10 ^ 6
          \<and> \<bar>[- 16688915 / 8388608, - 1038241 / 524288, - 14317713 / 8388608] ! c
            - (0 - cifar_mean ! c) / cifar_std_main ! c\<bar> \<le> 2 / 10 ^ 6)
     \<and> cifar_mean = [0.4914, 0.4822, 0.4465]
     \<and> cifar_std = [0.2023, 0.1994, 0.2010]
     \<and> cifar_std_main = [0.2470, 0.2435, 0.2616]"
proof -
  let ?r = "Resize resample (32, 32) img"
  let ?t = "ToTensor ?r"
  have grid: "is_grid 32 32 ?r"
    using assms by (rule Resize_grid)
  have tshape: "length ?t = 3" "list_all (is_grid 32 32) ?t"
    using ToTensor_shape [OF grid] by simp_all
  have shape: "length (transform resample img) = 3"
    "list_all (is_grid 32 32) (transform resample img)"
    using Normalize_shape [OF tshape]
    by (simp_all add: transform_def cifar_mean_def cifar_std_def)
  have shape_main: "length (transform_main resample img) = 3"
    "list_all (is_grid 32 32) (transform_main resample img)"
    using Normalize_shape [OF tshape]
    by (simp_all add: transform_main_def cifar_mean_def cifar_std_main_def)
  have point:
    "?t ! c ! y ! x = float32 (real (unat (channel c (?r ! y ! x))) / 255)
     \<and> 0 \<le> ?t ! c ! y ! x \<and> ?t ! c ! y ! x \<le> 1
     \<and> \<bar>?t ! c ! y ! x - real (unat (channel c (?r ! y ! x))) / 255\<bar> \<le> 1 / 10 ^ 7
     \<and> transform resample img ! c ! y ! x
         = float32 (float32 (?t ! c ! y ! x - as_float32 (cifar_mean ! c))
                    / as_float32 (cifar_std ! c))
     \<and> \<bar>transform resample img ! c ! y ! x
          - (real (unat (channel c (?r ! y ! x))) / 255 - cifar_mean ! c) / cifar_std ! c\<bar>
         \<le> 2 / 10 ^ 6
     \<and> transform_main resample img ! c ! y ! x
         = float32 (float32 (?t ! c ! y ! x - as_float32 (cifar_mean ! c))
                    / as_float32 (cifar_std_main ! c))
     \<and> \<bar>transform_main resample img ! c ! y ! x
          - (real (unat (channel c (?r ! y ! x))) / 255 - cifar_mean ! c)
              / cifar_std_main ! c\<bar>
         \<le> 2 / 10 ^ 6"
    if c: "c < 3" and y: "y < 32" and x: "x < 32" for c y x
  proof -
    define b where "b = channel c (?r ! y ! x)"
    have tn: "?t ! c ! y ! x = scaled b"
      unfolding b_def using ToTensor_nth [OF grid c y x] .
    have n1: "transform resample img ! c ! y ! x
        = normalize_value (cifar_mean ! c) (cifar_std ! c) (scaled b)"
      unfolding b_def using transform_nth(1) [OF grid c y x] .
    have n2: "transform_main resample img ! c ! y ! x
        = normalize_value (cifar_mean ! c) (cifar_std_main ! c) (scaled b)"
      unfolding b_def using transform_nth(2) [OF grid c y x] .
    have X: "0 \<le> real (unat b) / 255" "real (unat b) / 255 \<le> 1"
      using byte_fraction [of b] by simp_all
    note mf = mean_facts [OF c] and sf = std_facts [OF c] and smf = std_main_facts [OF c]
    have e1: "\<bar>normalize_value (cifar_mean ! c) (cifar_std ! c) (scaled b)
        - (real (unat b) / 255 - cifar_mean ! c) / cifar_std ! c\<bar> \<le> 2 / 10 ^ 6"
      unfolding scaled_def
      using mf sf by (intro normalize_value_error X) simp_all
    have e2: "\<bar>normalize_value (cifar_mean ! c) (cifar_std_main ! c) (scaled b)
        - (real (unat b) / 255 - cifar_mean ! c) / cifar_std_main ! c\<bar> \<le> 2 / 10 ^ 6"
      unfolding scaled_def
      using mf smf by (intro normalize_value_error X) simp_all
    have "?t ! c ! y ! x = float32 (real (unat b) / 255)"
      using tn by (simp add: scaled_def)
    moreover have "0 \<le> ?t ! c ! y ! x \<and> ?t ! c ! y ! x \<le> 1"
      using tn scaled_bounds [of b] by simp
    moreover have "\<bar>?t ! c ! y ! x - real (unat b) / 255\<bar> \<le> 1 / 10 ^ 7"
      using tn scaled_error [of b] by simp
    moreover have "transform resample img ! c ! y ! x
         = float32 (float32 (?t ! c ! y ! x - as_float32 (cifar_mean ! c))
                    / as_float32 (cifar_std ! c))"
      using n1 tn by (simp add: normalize_value_def)
    moreover have "transform_main resample img ! c ! y ! x
         = float32 (float32 (?t ! c ! y ! x - as_float32 (cifar_mean ! c))
                    / as_float32 (cifar_std_main ! c))"
      using n2 tn by (simp add: normalize_value_def)
    moreover note e1 [folded n1] e2 [folded n2]
    ultimately show ?thesis
      unfolding b_def by blast
  qed
  have rz: "Resize resample (32, 32) zero_image = zero_image"
    using zero_image_grid by (simp add: Resize_def)
  have z1: "transform resample zero_image
      = map (\<lambda>z. replicate 32 (replicate 32 z))
          [- 636765 / 262144, - 633931 / 262144, - 4658599 / 2097152]"
    unfolding transform_def rz ToTensor_zero_image cifar_mean_def cifar_std_def
      Normalize_zero zero_values
    by (rule refl)
  have z2: "transform_main resample zero_image
      = map (\<lambda>z. replicate 32 (replicate 32 z))
          [- 16688915 / 8388608, - 1038241 / 524288, - 14317713 / 8388608]"
    unfolding transform_main_def rz ToTensor_zero_image cifar_mean_def cifar_std_main_def
      Normalize_zero zero_values_main
    by (rule refl)
  have cs: "cifar_mean = [0.4914, 0.4822, 0.4465]"
    "cifar_std = [0.2023, 0.1994, 0.2010]"
    "cifar_std_main = [0.2470, 0.2435, 0.2616]"
    by (simp_all add: cifar_mean_def cifar_std_def cifar_std_main_def)
  show ?thesis
    apply (intro conjI)
    subgoal by (rule grid)
    subgoal by (rule shape)
    subgoal by (rule shape)
    subgoal by (rule shape_main)
    subgoal by (rule shape_main)
    subgoal by (intro allI impI, rule point; assumption)
    subgoal by (rule z1)
    subgoal by (rule z2)
    subgoal by (intro allI impI, rule zero_tolerance)
    subgoal by (rule cs)
    subgoal by (rule cs)
    subgoal by (rule cs)
    done
qed

lemma sample_pixel_values:
  "normalize_value (cifar_mean ! 0) (cifar_std ! 0) (scaled 128) = 14013327 / 268435456"
  "normalize_value (cifar_mean ! 1) (cifar_std ! 1) (scaled 1) = - 10060407 / 4194304"
  "normalize_value (cifar_mean ! 2) (cifar_std ! 2) (scaled 190) = 12461801 / 8388608"
  "normalize_value (cifar_mean ! 0) (cifar_std_main ! 0) (scaled 128) = 179333 / 4194304"
  "normalize_value (cifar_mean ! 1) (cifar_std_main ! 1) (scaled 1) = - 16476757 / 8388608"
  "normalize_value (cifar_mean ! 2) (cifar_std_main ! 2) (scaled 190) = 299219 / 262144"
  by code_simp+

lemma zero_pixel_values:
  "normalize_value (cifar_mean ! 0) (cifar_std_main ! 0) (scaled 0) = - 16688915 / 8388608"
  "normalize_value (cifar_mean ! 2) (cifar_std ! 2) (scaled 0) = - 4658599 / 2097152"
  by code_simp+

lemma zero_image_nth: "y < 32 \<Longrightarrow> x < 32 \<Longrightarrow> zero_image ! y ! x = (0, 0, 0)"
  by (simp add: zero_image_def)

lemma Resize_zero_image: "Resize resample (32, 32) zero_image = zero_image"
  using zero_image_grid by (simp add: Resize_def)

theorem transform_formula_witness:
  "transform nearest [[(128, 1, 190)]] ! 0 ! 0 ! 0 = 14013327 / 268435456
   \<and> transform nearest [[(128, 1, 190)]] ! 1 ! 5 ! 7 = - 10060407 / 4194304
   \<and> transform nearest [[(128, 1, 190)]] ! 2 ! 31 ! 31 = 12461801 / 8388608
   \<and> transform_main nearest [[(128, 1, 190)]] ! 0 ! 0 ! 0 = 179333 / 4194304
   \<and> transform_main nearest [[(128, 1, 190)]] ! 1 ! 5 ! 7 = - 16476757 / 8388608
   \<and> transform_main nearest [[(128, 1, 190)]] ! 2 ! 31 ! 31 = 299219 / 262144
   \<and> \<bar>transform nearest [[(128, 1, 190)]] ! 0 ! 0 ! 0 - (128 / 255 - 0.4914) / 0.2023\<bar>
       \<le> 2 / 10 ^ 6
   \<and> transform nearest zero_image ! 2 ! 31 ! 31 = - 4658599 / 2097152"
proof -
  let ?img = "[[(128, 1, 190)]] :: rgb_image"
  note t = transform_formula [where resample = nearest and img = ?img, OF nearest_grid]
  note pt = t [THEN conjunct2, THEN conjunct2, THEN conjunct2, THEN conjunct2, THEN conjunct2,
      THEN conjunct1, rule_format]
  note tz = transform_formula [where resample = nearest and img = zero_image, OF nearest_grid]
  have r: "Resize nearest (32, 32) ?img ! y ! x = (128, 1, 190)" if "y < 32" "x < 32" for y x
    using that by (simp add: Resize_def is_grid_def nearest_def)
  have ch: "channel 0 (128, 1, 190) = 128" "channel 1 (128, 1, 190) = 1"
    "channel 2 (128, 1, 190) = 190"
    by (simp_all add: channel_def red_def green_def blue_def)
  have v: "transform nearest ?img ! c ! y ! x
        = normalize_value (cifar_mean ! c) (cifar_std ! c) (scaled (channel c (128, 1, 190)))"
    and vm: "transform_main nearest ?img ! c ! y ! x
        = normalize_value (cifar_mean ! c) (cifar_std_main ! c)
            (scaled (channel c (128, 1, 190)))"
    if "c < 3" "y < 32" "x < 32" for c y x
    using pt [OF that] r [OF that(2,3)] by (simp_all add: normalize_value_def scaled_def)
  have i0: "(0::nat) < 3" "(0::nat) < 32" and i1: "(1::nat) < 3" "(5::nat) < 32" "(7::nat) < 32"
    and i2: "(2::nat) < 3" "(31::nat) < 32"
    by simp_all
  have a: "transform nearest ?img ! 0 ! 0 ! 0 = 14013327 / 268435456"
    "transform nearest ?img ! 1 ! 5 ! 7 = - 10060407 / 4194304"
    "transform nearest ?img ! 2 ! 31 ! 31 = 12461801 / 8388608"
    "transform_main nearest ?img ! 0 ! 0 ! 0 = 179333 / 4194304"
    "transform_main nearest ?img ! 1 ! 5 ! 7 = - 16476757 / 8388608"
    "transform_main nearest ?img ! 2 ! 31 ! 31 = 299219 / 262144"
    using v [OF i0(1) i0(2) i0(2)] v [OF i1] v [OF i2(1) i2(2) i2(2)]
      vm [OF i0(1) i0(2) i0(2)] vm [OF i1] vm [OF i2(1) i2(2) i2(2)]
    by (simp_all only: ch sample_pixel_values)
  have tol: "\<bar>transform nearest ?img ! 0 ! 0 ! 0 - (128 / 255 - 0.4914) / 0.2023\<bar> \<le> 2 / 10 ^ 6"
    using pt [OF i0(1) i0(2) i0(2), THEN conjunct2, THEN conjunct2, THEN conjunct2,
        THEN conjunct2, THEN conjunct2, THEN conjunct1]
    by (simp add: r [OF i0(2) i0(2)] ch(1) cifar_mean_def cifar_std_def)
  have z: "transform nearest zero_image ! 2 ! 31 ! 31 = - 4658599 / 2097152"
    using tz [THEN conjunct2, THEN conjunct2, THEN conjunct2, THEN conjunct2, THEN conjunct2,
      THEN conjunct2, THEN conjunct1]
    by simp
  show ?thesis
    by (intro conjI a tol z)
qed

text \<open>
  Claim C6 as stated fails. For the pipeline of \<open>main.py\<close> the first channel of the
  all-zero image is more than 0.4 away from \<open>(0 - 0.4914) / 0.2023\<close>, beyond any
  rounding: its std is not the claimed one. And for the pipeline of \<open>backend/app.py\<close>
  the third channel is a 32-bit float next to \<open>(0 - 0.4465) / 0.2010\<close>, not that number.
\<close>

theorem transform_main_std_counterexample:
  "transform_main nearest zero_image ! 0 ! 0 ! 0 = - 16688915 / 8388608
   \<and> 4 / 10 < \<bar>- 16688915 / 8388608 - (0 - 0.4914) / 0.2023 :: real\<bar>
   \<and> transform nearest zero_image ! 2 ! 31 ! 31 = - 4658599 / 2097152
   \<and> - 4658599 / 2097152 \<noteq> ((0 - 0.4465) / 0.2010 :: real)"
proof -
  have g: "is_grid 32 32 (Resize nearest (32, 32) zero_image)"
    by (simp add: Resize_zero_image zero_image_grid)
  have c0: "channel 0 (0, 0, 0) = 0" and c2: "channel 2 (0, 0, 0) = 0"
    by (simp_all add: channel_def red_def blue_def)
  have m: "transform_main nearest zero_image ! 0 ! 0 ! 0 = - 16688915 / 8388608"
    using transform_nth(2) [OF g, of 0 0 0]
    by (simp add: Resize_zero_image zero_image_nth c0 zero_pixel_values)
  have a: "transform nearest zero_image ! 2 ! 31 ! 31 = - 4658599 / 2097152"
    using transform_nth(1) [OF g, of 2 31 31]
    by (simp add: Resize_zero_image zero_image_nth c2 zero_pixel_values)
  have far: "4 / 10 < \<bar>- 16688915 / 8388608 - (0 - 0.4914) / 0.2023 :: real\<bar>"
    by simp
  have ne: "- 4658599 / 2097152 \<noteq> ((0 - 0.4465) / 0.2010 :: real)"
    by simp
  show ?thesis
    by (intro conjI m far a ne)
qed

subsection \<open>The batch loop and the two \<open>predict_image\<close> functions\<close>

lemma has_field_getlist: "has_field request_files field \<longleftrightarrow> getlist request_files field \<noteq> []"
  by (induction request_files) (auto simp: has_field_def getlist_def)

lemma getlist_same_field:
  "getlist (map (\<lambda>f. (field, f)) files) field = files"
  by (induction files) (simp_all add: getlist_def)

lemma classify_each_results:
  "fst (fst (classify_each step files rs cc s)) = rs @ per_image_results step files s"
  by (induction files arbitrary: rs cc s) (auto split: prod.splits)

lemma per_image_results_length:
  "length (per_image_results step files s) = length (filter (\<lambda>f. filename f \<noteq> []) files)"
  by (induction files arbitrary: s) (auto split: prod.splits)

lemma per_image_results_filenames:
  assumes "\<And>s f. result_filename (fst (step s f)) = filename f"
  shows "map result_filename (per_image_results step files s)
           = filter (\<lambda>n. n \<noteq> []) (map filename files)"
proof (induction files arbitrary: s)
  case Nil
  show ?case by simp
next
  case (Cons f files)
  show ?case
  proof (cases "filename f = []")
    case True
    then show ?thesis using Cons.IH by simp
  next
    case False
    obtain r s' where st: "step s f = (r, s')"
      by (cases "step s f")
    have "result_filename r = filename f"
      using assms [of s f] st by simp
    then show ?thesis
      using False st Cons.IH by simp
  qed
qed

lemma per_image_results_all:
  assumes "\<And>s f. P (fst (step s f))"
  shows "list_all P (per_image_results step files s)"
proof (induction files arbitrary: s)
  case Nil
  show ?case by simp
next
  case (Cons f files)
  obtain r s' where st: "step s f = (r, s')"
    by (cases "step s f")
  have "P r"
    using assms [of s f] st by simp
  then show ?case
    using st Cons.IH by simp
qed

lemma sum_values_dict_set:
  "sum_values (dict_set d k (Suc (dict_get d k 0))) = Suc (sum_values d)"
  by (induction d) (auto simp: sum_values_def)

lemma classify_each_counts:
  "sum_values (snd (fst (classify_each step files rs cc s)))
     = sum_values cc
       + length (filter (\<lambda>r. result_class r \<noteq> ''error'') (per_image_results step files s))"
proof (induction files arbitrary: rs cc s)
  case Nil
  show ?case by simp
next
  case (Cons f files)
  show ?case
  proof (cases "filename f = []")
    case True
    then show ?thesis using Cons.IH by simp
  next
    case False
    obtain r s' where st: "step s f = (r, s')"
      by (cases "step s f")
    show ?thesis
      using False st Cons.IH by (simp add: sum_values_dict_set)
  qed
qed

lemma predict_app_ok:
  assumes "has_field request_files ''images''"
  shows "fst (predict_app lib model now request_files w) =
     (200, Json
        \<lparr>results = per_image_results
            (\<lambda>w file. predict_image_app lib model (stream file) (filename file) now w)
            (getlist request_files ''images'') w,
         session_id = Some now,
         class_counts = snd (fst (classify_each
            (\<lambda>w file. predict_image_app lib model (stream file) (filename file) now w)
            (getlist request_files ''images'') [] [] w)),
         total_images = length (per_image_results
            (\<lambda>w file. predict_image_app lib model (stream file) (filename file) now w)
            (getlist request_files ''images'') w)\<rparr>)"
proof -
  have ne: "getlist request_files ''images'' \<noteq> []"
    using assms has_field_getlist by blast
  show ?thesis
    using assms ne
    by (simp add: predict_app_def Let_def case_prod_beta classify_each_results)
qed

lemma predict_api_ok:
  assumes "has_field request_files ''images''"
  shows "fst (predict_api lib request_files st) =
     (200, Json
        \<lparr>results = per_image_results
            (\<lambda>st file. predict_image_api lib (stream file) (filename file) st)
            (getlist request_files ''images'') st,
         session_id = None,
         class_counts = snd (fst (classify_each
            (\<lambda>st file. predict_image_api lib (stream file) (filename file) st)
            (getlist request_files ''images'') [] [] st)),
         total_images = length (per_image_results
            (\<lambda>st file. predict_image_api lib (stream file) (filename file) st)
            (getlist request_files ''images'') st)\<rparr>)"
proof -
  have ne: "getlist request_files ''images'' \<noteq> []"
    using assms has_field_getlist by blast
  show ?thesis
    using assms ne
    by (simp add: predict_api_def Let_def case_prod_beta classify_each_results)
qed

lemma predict_app_no_field:
  "\<not> has_field request_files ''images'' \<Longrightarrow>
   predict_app lib model now request_files w = ((400, ErrorJson ''No images provided''), w)"
  by (simp add: predict_app_def)

lemma predict_api_no_field:
  "\<not> has_field request_files ''images'' \<Longrightarrow>
   predict_api lib request_files st = ((400, ErrorJson ''No images provided''), st)"
  by (simp add: predict_api_def)

lemma predict_image_app_filename:
  "result_filename (fst (predict_image_app lib model bytes fname sid w)) = fname"
  by (simp add: predict_image_app_def error_result_def Let_def
      split: sum.splits prod.splits option.splits)

lemma predict_image_api_filename:
  "result_filename (fst (predict_image_api lib bytes fname st)) = fname"
  by (simp add: predict_image_api_def error_result_def and_then_def
      split: sum.splits prod.splits)

lemma classify_app_label:
  "classify_app lib model bytes = Inr (img, c) \<Longrightarrow> c \<in> set CIFAR10_CLASSES"
  by (auto simp: classify_app_def and_then_def split: sum.splits if_splits
      dest: labelOf_Inr_label)

lemma predict_image_app_forms:
  "(success_form (fst (predict_image_app lib model bytes fname sid w))
      \<or> failure_form (fst (predict_image_app lib model bytes fname sid w)))
   \<and> \<not> (success_form (fst (predict_image_app lib model bytes fname sid w))
      \<and> failure_form (fst (predict_image_app lib model bytes fname sid w)))"
proof (cases "classify_app lib model bytes")
  case (Inl e)
  then show ?thesis
    by (simp add: predict_image_app_def error_result_def success_form_def failure_form_def)
next
  case (Inr p)
  obtain img c where p: "p = (img, c)"
    by (cases p)
  have "c \<in> set CIFAR10_CLASSES"
    using classify_app_label [of lib model bytes img c] Inr p by simp
  then have "c \<noteq> ''error''"
    using error_not_a_label by auto
  then show ?thesis
    using Inr p
    by (simp add: predict_image_app_def error_result_def success_form_def failure_form_def
        Let_def split: prod.splits option.splits)
qed

lemma and_then_Inr:
  "and_then r f = Inr y \<longleftrightarrow> (\<exists>x. r = Inr x \<and> f x = Inr y)"
  by (cases r) (simp_all add: and_then_def)

lemma api_tail_class:
  assumes "and_then (call_model lib model input_batch) (\<lambda>output.
           and_then (softmax0 lib output) (\<lambda>probabilities.
           and_then (torch_max1 lib output) (\<lambda>predicted_idx.
           and_then (labelOf predicted_idx) (\<lambda>predicted_class.
           and_then (item_at lib probabilities predicted_idx) (\<lambda>confidence.
           Inr \<lparr>result_filename = fname, result_class = predicted_class,
                result_confidence = Some (py_round2 lib (confidence * 100)),
                result_saved_path = None, result_error = None\<rparr>))))) = Inr r"
  shows "result_class r \<in> set CIFAR10_CLASSES \<and> result_error r = None"
  using assms by (auto simp: and_then_Inr dest: labelOf_Inr_label)

lemma predict_image_api_forms:
  "(success_form (fst (predict_image_api lib bytes fname st))
      \<or> failure_form (fst (predict_image_api lib bytes fname st)))
   \<and> \<not> (success_form (fst (predict_image_api lib bytes fname st))
      \<and> failure_form (fst (predict_image_api lib bytes fname st)))"
proof -
  have e: "(success_form (error_result fname x) \<or> failure_form (error_result fname x))
      \<and> \<not> (success_form (error_result fname x) \<and> failure_form (error_result fname x))" for x
    by (simp add: error_result_def success_form_def failure_form_def)
  have s: "(success_form r \<or> failure_form r) \<and> \<not> (success_form r \<and> failure_form r)"
    if "result_class r \<in> set CIFAR10_CLASSES \<and> result_error r = None" for r
    using that error_not_a_label by (auto simp: success_form_def failure_form_def)
  let ?pre = "and_then (Image_open lib bytes) (\<lambda>image0.
        and_then (if mode lib image0 \<noteq> ''RGB'' then convert lib image0 ''RGB'' else Inr image0)
          (\<lambda>img.
        and_then (apply_transform lib img) (\<lambda>input_tensor.
        Inr (unsqueeze0 lib input_tensor))))"
  show ?thesis
  proof (cases ?pre)
    case (Inl x)
    then show ?thesis
      using e [of x] by (simp add: predict_image_api_def)
  next
    case pre: (Inr input_batch)
    obtain g st' where gm: "get_model lib st = (g, st')"
      by (cases "get_model lib st")
    show ?thesis
    proof (cases g)
      case (Inl x)
      then show ?thesis
        using pre gm e [of x] by (simp add: predict_image_api_def)
    next
      case (Inr model)
      let ?tail = "and_then (call_model lib model input_batch) (\<lambda>output.
           and_then (softmax0 lib output) (\<lambda>probabilities.
           and_then (torch_max1 lib output) (\<lambda>predicted_idx.
           and_then (labelOf predicted_idx) (\<lambda>predicted_class.
           and_then (item_at lib probabilities predicted_idx) (\<lambda>confidence.
           Inr \<lparr>result_filename = fname, result_class = predicted_class,
                result_confidence = Some (py_round2 lib (confidence * 100)),
                result_saved_path = None, result_error = None\<rparr>)))))"
      show ?thesis
      proof (cases ?tail)
        case (Inl x)
        then show ?thesis
          using pre gm \<open>g = Inr model\<close> e [of x] by (simp add: predict_image_api_def)
      next
        case tl: (Inr r)
        have "fst (predict_image_api lib bytes fname st) = r"
          using pre gm \<open>g = Inr model\<close> tl by (simp add: predict_image_api_def)
        then show ?thesis
          using s [OF api_tail_class [OF tl]] by simp
      qed
    qed
  qed
qed

lemma sample_has_field: "has_field sample_request ''images''"
  by (simp add: has_field_def sample_request_def)

lemma sample_files:
  "getlist sample_request ''images'' = [corrupt_file, unnamed_file, cat_file, note_file]"
  by (simp add: getlist_def sample_request_def)

lemma sample_named:
  "filter (\<lambda>f. filename f \<noteq> []) [corrupt_file, unnamed_file, cat_file, note_file]
     = [corrupt_file, cat_file, note_file]"
  by (simp add: corrupt_file_def unnamed_file_def cat_file_def note_file_def)

lemma sum_values_Nil: "sum_values [] = 0"
  by (simp add: sum_values_def)

text \<open>
  Claim C2. In both handlers, a request with at least one file under \<open>images\<close> is
  answered with status 200, and \<open>total_images\<close> is the number of inputs with a
  non-empty filename, which is the length of \<open>results\<close>; the results carry the
  non-empty filenames in the order of the inputs, so an input with an empty filename has
  no result. Nothing in the statement depends on what the collaborators return, that is,
  on which inputs succeed.
\<close>

theorem total_images_counts_named_inputs:
  "(has_field request_files ''images'' \<longrightarrow>
      (\<exists>r. fst (predict_app lib model now request_files w) = (200, Json r)
         \<and> total_images r = length (filter (\<lambda>f. filename f \<noteq> []) (getlist request_files ''images''))
         \<and> total_images r = length (results r)
         \<and> map result_filename (results r)
             = filter (\<lambda>n. n \<noteq> []) (map filename (getlist request_files ''images''))))
   \<and> (has_field request_files ''images'' \<longrightarrow>
      (\<exists>r. fst (predict_api lib request_files st) = (200, Json r)
         \<and> total_images r = length (filter (\<lambda>f. filename f \<noteq> []) (getlist request_files ''images''))
         \<and> total_images r = length (results r)
         \<and> map result_filename (results r)
             = filter (\<lambda>n. n \<noteq> []) (map filename (getlist request_files ''images''))))"
proof (intro conjI impI)
  assume h: "has_field request_files ''images''"
  show "\<exists>r. fst (predict_app lib model now request_files w) = (200, Json r)
         \<and> total_images r = length (filter (\<lambda>f. filename f \<noteq> []) (getlist request_files ''images''))
         \<and> total_images r = length (results r)
         \<and> map result_filename (results r)
             = filter (\<lambda>n. n \<noteq> []) (map filename (getlist request_files ''images''))"
    using predict_app_ok [OF h, of lib model now w]
    by (simp add: per_image_results_length per_image_results_filenames
        predict_image_app_filename)
next
  assume h: "has_field request_files ''images''"
  show "\<exists>r. fst (predict_api lib request_files st) = (200, Json r)
         \<and> total_images r = length (filter (\<lambda>f. filename f \<noteq> []) (getlist request_files ''images''))
         \<and> total_images r = length (results r)
         \<and> map result_filename (results r)
             = filter (\<lambda>n. n \<noteq> []) (map filename (getlist request_files ''images''))"
    using predict_api_ok [OF h, of lib st]
    by (simp add: per_image_results_length per_image_results_filenames
        predict_image_api_filename)
qed

theorem total_images_counts_named_inputs_witness:
  "has_field sample_request ''images''
   \<and> (\<exists>r. fst (predict_app sample_lib () ''20240101_120000'' sample_request []) = (200, Json r)
        \<and> total_images r = 3 \<and> length (results r) = 3
        \<and> map result_filename (results r) = [''broken.jpg'', ''cat.jpg'', ''dog.txt''])
   \<and> (\<exists>r. fst (predict_api sample_lib sample_request \<lparr>model_global = None, loads = 0\<rparr>)
            = (200, Json r)
        \<and> total_images r = 3 \<and> length (results r) = 3
        \<and> map result_filename (results r) = [''broken.jpg'', ''cat.jpg'', ''dog.txt''])"
proof -
  have names: "filter (\<lambda>n. n \<noteq> []) (map filename (getlist sample_request ''images''))
      = [''broken.jpg'', ''cat.jpg'', ''dog.txt'']"
    by (simp add: sample_files corrupt_file_def unnamed_file_def cat_file_def note_file_def)
  have count: "length (filter (\<lambda>f. filename f \<noteq> []) (getlist sample_request ''images'')) = 3"
    by (simp add: sample_files corrupt_file_def unnamed_file_def cat_file_def note_file_def)
  show ?thesis
    using total_images_counts_named_inputs
      [of sample_request sample_lib "()" "''20240101_120000''" "[]"
        "\<lparr>model_global = None, loads = 0\<rparr>"]
      sample_has_field
    by (simp only: names count) auto
qed

text \<open>
  Claim C3. In both handlers the values of \<open>class_counts\<close> add up to the number of
  results whose class is not \<open>error\<close>; and a step of the loop whose result has the
  class \<open>error\<close> passes \<open>class_counts\<close> on unchanged.
\<close>

theorem class_counts_sum:
  "(has_field request_files ''images'' \<longrightarrow>
      (\<exists>r. fst (predict_app lib model now request_files w) = (200, Json r)
         \<and> sum_values (class_counts r)
             = length (filter (\<lambda>x. result_class x \<noteq> ''error'') (results r))))
   \<and> (has_field request_files ''images'' \<longrightarrow>
      (\<exists>r. fst (predict_api lib request_files st) = (200, Json r)
         \<and> sum_values (class_counts r)
             = length (filter (\<lambda>x. result_class x \<noteq> ''error'') (results r))))
   \<and> (filename upload \<noteq> [] \<and> step s upload = (res, s') \<and> result_class res = ''error'' \<longrightarrow>
        classify_each step (upload # files) rs counts s
          = classify_each step files (rs @ [res]) counts s')"
proof (intro conjI impI)
  assume h: "has_field request_files ''images''"
  show "\<exists>r. fst (predict_app lib model now request_files w) = (200, Json r)
         \<and> sum_values (class_counts r)
             = length (filter (\<lambda>x. result_class x \<noteq> ''error'') (results r))"
    using predict_app_ok [OF h, of lib model now w]
    by (simp add: classify_each_counts sum_values_Nil)
next
  assume h: "has_field request_files ''images''"
  show "\<exists>r. fst (predict_api lib request_files st) = (200, Json r)
         \<and> sum_values (class_counts r)
             = length (filter (\<lambda>x. result_class x \<noteq> ''error'') (results r))"
    using predict_api_ok [OF h, of lib st]
    by (simp add: classify_each_counts sum_values_Nil)
next
  assume "filename upload \<noteq> [] \<and> step s upload = (res, s') \<and> result_class res = ''error''"
  then show "classify_each step (upload # files) rs counts s
          = classify_each step files (rs @ [res]) counts s'"
    by simp
qed

text \<open>
  Claim C4. What either \<open>predict_image\<close> returns is in exactly one of the two forms:
  a class other than \<open>error\<close> and no \<open>error\<close> key, or the class \<open>error\<close> with
  the \<open>error\<close> key present; so is every result of a batch.
\<close>

theorem result_forms_exclusive:
  "(success_form (fst (predict_image_app lib model bytes fname sid w))
      \<or> failure_form (fst (predict_image_app lib model bytes fname sid w)))
   \<and> \<not> (success_form (fst (predict_image_app lib model bytes fname sid w))
      \<and> failure_form (fst (predict_image_app lib model bytes fname sid w)))
   \<and> (success_form (fst (predict_image_api lib bytes fname st))
      \<or> failure_form (fst (predict_image_api lib bytes fname st)))
   \<and> \<not> (success_form (fst (predict_image_api lib bytes fname st))
      \<and> failure_form (fst (predict_image_api lib bytes fname st)))
   \<and> (has_field request_files ''images'' \<longrightarrow>
      (\<exists>r. fst (predict_app lib model now request_files w) = (200, Json r)
         \<and> (\<forall>x \<in> set (results r).
               (success_form x \<or> failure_form x) \<and> \<not> (success_form x \<and> failure_form x))))
   \<and> (has_field request_files ''images'' \<longrightarrow>
      (\<exists>r. fst (predict_api lib request_files st) = (200, Json r)
         \<and> (\<forall>x \<in> set (results r).
               (success_form x \<or> failure_form x) \<and> \<not> (success_form x \<and> failure_form x))))"
proof -
  let ?P = "\<lambda>x. (success_form x \<or> failure_form x) \<and> \<not> (success_form x \<and> failure_form x)"
  have app: "?P (fst (predict_image_app lib model b f sid' w'))" for b f sid' w'
    using predict_image_app_forms [of lib model b f sid' w'] by blast
  have api: "?P (fst (predict_image_api lib b f st'))" for b f st'
    using predict_image_api_forms [of lib b f st'] by blast
  have all_app: "list_all ?P (per_image_results
      (\<lambda>w file. predict_image_app lib model (stream file) (filename file) now w) files w)"
    for files
    by (rule per_image_results_all) (rule app)
  have all_api: "list_all ?P (per_image_results
      (\<lambda>st file. predict_image_api lib (stream file) (filename file) st) files st)"
    for files
    by (rule per_image_results_all) (rule api)
  have b_app: "\<exists>r. fst (predict_app lib model now request_files w) = (200, Json r)
         \<and> (\<forall>x \<in> set (results r). ?P x)"
    if h: "has_field request_files ''images''"
    using predict_app_ok [OF h, of lib model now w]
      all_app [of "getlist request_files ''images''"]
    by (simp add: list_all_iff)
  have b_api: "\<exists>r. fst (predict_api lib request_files st) = (200, Json r)
         \<and> (\<forall>x \<in> set (results r). ?P x)"
    if h: "has_field request_files ''images''"
    using predict_api_ok [OF h, of lib st]
      all_api [of "getlist request_files ''images''"]
    by (simp add: list_all_iff)
  show ?thesis
    using app [of bytes fname sid w] api [of bytes fname st] b_app b_api by blast
qed

text \<open>
  Claim C1. Whichever call of the \<open>try\<close> block raises first (decoding: \<open>Image.open\<close>,
  \<open>convert\<close>; preprocessing: \<open>transform\<close>; inference: loading the network in
  \<open>api/index.py\<close>, the forward pass, \<open>softmax\<close>, \<open>torch.max\<close>, the label lookup,
  the confidence; persistence in \<open>backend/app.py\<close>: \<open>os.makedirs\<close>, \<open>image.save\<close>),
  \<open>predict_image\<close> returns the result with the input's filename, the class
  \<open>error\<close> and \<open>str(e)\<close> under \<open>error\<close>. The batch goes on: the results of a
  request are the per-image results of all its inputs with a non-empty filename, one for
  each, whatever the earlier ones were.
\<close>

theorem per_image_failure_isolated:
  "(Image_open lib bytes = Inl e \<longrightarrow>
      fst (predict_image_app lib model bytes fname sid w) = error_result fname e)
   \<and> (Image_open lib bytes = Inr opened \<and> mode lib opened \<noteq> ''RGB''
        \<and> convert lib opened ''RGB'' = Inl e \<longrightarrow>
      fst (predict_image_app lib model bytes fname sid w) = error_result fname e)
   \<and> (Image_open lib bytes = Inr opened
        \<and> (if mode lib opened \<noteq> ''RGB'' then convert lib opened ''RGB'' else Inr opened) = Inr img
        \<and> apply_transform lib img = Inl e \<longrightarrow>
      fst (predict_image_app lib model bytes fname sid w) = error_result fname e)
   \<and> (Image_open lib bytes = Inr opened
        \<and> (if mode lib opened \<noteq> ''RGB'' then convert lib opened ''RGB'' else Inr opened) = Inr img
        \<and> apply_transform lib img = Inr input_tensor
        \<and> call_model lib model (unsqueeze0 lib input_tensor) = Inl e \<longrightarrow>
      fst (predict_image_app lib model bytes fname sid w) = error_result fname e)
   \<and> (Image_open lib bytes = Inr opened
        \<and> (if mode lib opened \<noteq> ''RGB'' then convert lib opened ''RGB'' else Inr opened) = Inr img
        \<and> apply_transform lib img = Inr input_tensor
        \<and> call_model lib model (unsqueeze0 lib input_tensor) = Inr logits
        \<and> torch_max1 lib logits = Inl e \<longrightarrow>
      fst (predict_image_app lib model bytes fname sid w) = error_result fname e)
   \<and> (Image_open lib bytes = Inr opened
        \<and> (if mode lib opened \<noteq> ''RGB'' then convert lib opened ''RGB'' else Inr opened) = Inr img
        \<and> apply_transform lib img = Inr input_tensor
        \<and> call_model lib model (unsqueeze0 lib input_tensor) = Inr logits
        \<and> torch_max1 lib logits = Inr predicted_idx
        \<and> labelOf predicted_idx = Inl e \<longrightarrow>
      fst (predict_image_app lib model bytes fname sid w) = error_result fname e)
   \<and> (Image_open lib bytes = Inr opened
        \<and> (if mode lib opened \<noteq> ''RGB'' then convert lib opened ''RGB'' else Inr opened) = Inr img
        \<and> apply_transform lib img = Inr input_tensor
        \<and> call_model lib model (unsqueeze0 lib input_tensor) = Inr logits
        \<and> torch_max1 lib logits = Inr predicted_idx
        \<and> labelOf predicted_idx = Inr predicted_class
        \<and> os_makedirs lib (os_path_join (os_path_join OUTPUT_DIR sid) predicted_class) w
             = (Some e, w_made) \<longrightarrow>
      predict_image_app lib model bytes fname sid w = (error_result fname e, w_made))
   \<and> (Image_open lib bytes = Inr opened
        \<and> (if mode lib opened \<noteq> ''RGB'' then convert lib opened ''RGB'' else Inr opened) = Inr img
        \<and> apply_transform lib img = Inr input_tensor
        \<and> call_model lib model (unsqueeze0 lib input_tensor) = Inr logits
        \<and> torch_max1 lib logits = Inr predicted_idx
        \<and> labelOf predicted_idx = Inr predicted_class
        \<and> os_makedirs lib (os_path_join (os_path_join OUTPUT_DIR sid) predicted_class) w
             = (None, w_made)
        \<and> image_save lib img
             (os_path_join (os_path_join (os_path_join OUTPUT_DIR sid) predicted_class) fname) w_made
             = (Some e, w_saved) \<longrightarrow>
      predict_image_app lib model bytes fname sid w = (error_result fname e, w_saved))
   \<and> (Image_open lib bytes = Inl e \<longrightarrow>
      fst (predict_image_api lib bytes fname st) = error_result fname e)
   \<and> (Image_open lib bytes = Inr opened \<and> mode lib opened \<noteq> ''RGB''
        \<and> convert lib opened ''RGB'' = Inl e \<longrightarrow>
      fst (predict_image_api lib bytes fname st) = error_result fname e)
   \<and> (Image_open lib bytes = Inr opened
        \<and> (if mode lib opened \<noteq> ''RGB'' then convert lib opened ''RGB'' else Inr opened) = Inr img
        \<and> apply_transform lib img = Inl e \<longrightarrow>
      fst (predict_image_api lib bytes fname st) = error_result fname e)
   \<and> (Image_open lib bytes = Inr opened
        \<and> (if mode lib opened \<noteq> ''RGB'' then convert lib opened ''RGB'' else Inr opened) = Inr img
        \<and> apply_transform lib img = Inr input_tensor
        \<and> get_model lib st = (Inl e, st_next) \<longrightarrow>
      predict_image_api lib bytes fname st = (error_result fname e, st_next))
   \<and> (Image_open lib bytes = Inr opened
        \<and> (if mode lib opened \<noteq> ''RGB'' then convert lib opened ''RGB'' else Inr opened) = Inr img
        \<and> apply_transform lib img = Inr input_tensor
        \<and> get_model lib st = (Inr loaded, st_next)
        \<and> call_model lib loaded (unsqueeze0 lib input_tensor) = Inl e \<longrightarrow>
      predict_image_api lib bytes fname st = (error_result fname e, st_next))
   \<and> (Image_open lib bytes = Inr opened
        \<and> (if mode lib opened \<noteq> ''RGB'' then convert lib opened ''RGB'' else Inr opened) = Inr img
        \<and> apply_transform lib img = Inr input_tensor
        \<and> get_model lib st = (Inr loaded, st_next)
        \<and> call_model lib loaded (unsqueeze0 lib input_tensor) = Inr logits
        \<and> softmax0 lib logits = Inl e \<longrightarrow>
      predict_image_api lib bytes fname st = (error_result fname e, st_next))
   \<and> (Image_open lib bytes = Inr opened
        \<and> (if mode lib opened \<noteq> ''RGB'' then convert lib opened ''RGB'' else Inr opened) = Inr img
        \<and> apply_transform lib img = Inr input_tensor
        \<and> get_model lib st = (Inr loaded, st_next)
        \<and> call_model lib loaded (unsqueeze0 lib input_tensor) = Inr logits
        \<and> softmax0 lib logits = Inr probabilities
        \<and> torch_max1 lib logits = Inl e \<longrightarrow>
      predict_image_api lib bytes fname st = (error_result fname e, st_next))
   \<and> (Image_open lib bytes = Inr opened
        \<and> (if mode lib opened \<noteq> ''RGB'' then convert lib opened ''RGB'' else Inr opened) = Inr img
        \<and> apply_transform lib img = Inr input_tensor
        \<and> get_model lib st = (Inr loaded, st_next)
        \<and> call_model lib loaded (unsqueeze0 lib input_tensor) = Inr logits
        \<and> softmax0 lib logits = Inr probabilities
        \<and> torch_max1 lib logits = Inr predicted_idx
        \<and> labelOf predicted_idx = Inl e \<longrightarrow>
      predict_image_api lib bytes fname st = (error_result fname e, st_next))
   \<and> (Image_open lib bytes = Inr opened
        \<and> (if mode lib opened \<noteq> ''RGB'' then convert lib opened ''RGB'' else Inr opened) = Inr img
        \<and> apply_transform lib img = Inr input_tensor
        \<and> get_model lib st = (Inr loaded, st_next)
        \<and> call_model lib loaded (unsqueeze0 lib input_tensor) = Inr logits
        \<and> softmax0 lib logits = Inr probabilities
        \<and> torch_max1 lib logits = Inr predicted_idx
        \<and> labelOf predicted_idx = Inr predicted_class
        \<and> item_at lib probabilities predicted_idx = Inl e \<longrightarrow>
      predict_image_api lib bytes fname st = (error_result fname e, st_next))
   \<and> result_class (error_result fname e) = ''error''
   \<and> result_error (error_result fname e) = Some (str_exn e)
   \<and> result_filename (error_result fname e) = fname
   \<and> (has_field request_files ''images'' \<longrightarrow>
        (\<exists>r. fst (predict_app lib model now request_files w) = (200, Json r)
           \<and> results r = per_image_results
                (\<lambda>w file. predict_image_app lib model (stream file) (filename file) now w)
                (getlist request_files ''images'') w))
   \<and> (has_field request_files ''images'' \<longrightarrow>
        (\<exists>r. fst (predict_api lib request_files st) = (200, Json r)
           \<and> results r = per_image_results
                (\<lambda>st file. predict_image_api lib (stream file) (filename file) st)
                (getlist request_files ''images'') st))
   \<and> length (per_image_results step files s) = length (filter (\<lambda>f. filename f \<noteq> []) files)"
proof -
  have b1: "has_field request_files ''images'' \<longrightarrow>
        (\<exists>r. fst (predict_app lib model now request_files w) = (200, Json r)
           \<and> results r = per_image_results
                (\<lambda>w file. predict_image_app lib model (stream file) (filename file) now w)
                (getlist request_files ''images'') w)"
    using predict_app_ok [of request_files lib model now w] by simp
  have b2: "has_field request_files ''images'' \<longrightarrow>
        (\<exists>r. fst (predict_api lib request_files st) = (200, Json r)
           \<and> results r = per_image_results
                (\<lambda>st file. predict_image_api lib (stream file) (filename file) st)
                (getlist request_files ''images'') st)"
    using predict_api_ok [of request_files lib st] by simp
  have b3: "length (per_image_results step files s)
      = length (filter (\<lambda>f. filename f \<noteq> []) files)"
    by (rule per_image_results_length)
  show ?thesis
    apply (intro conjI)
    prefer 21 apply (rule b1)
    prefer 21 apply (rule b2)
    prefer 21 apply (rule b3)
    apply (simp_all add: predict_image_app_def classify_app_def
        predict_image_api_def and_then_def Let_def error_result_def)
    done
qed

lemma labelOf_7: "labelOf 7 = Inr ''horse''"
  by (simp add: labelOf_def py_getitem_def CIFAR10_CLASSES_def)

lemma labelOf_10: "labelOf 10 = Inl IndexError"
  by (simp add: labelOf_def py_getitem_def CIFAR10_CLASSES_def)

lemma sample_app_response:
  "fst (predict_app sample_lib () ''20240101_120000'' sample_request []) =
     (200, Json
       \<lparr>results =
          [error_result ''broken.jpg'' (Raised ''cannot identify image file''),
           \<lparr>result_filename = ''cat.jpg'', result_class = ''cat'', result_confidence = None,
            result_saved_path = Some ''classified_images/20240101_120000/cat/cat.jpg'',
            result_error = None\<rparr>,
           error_result ''dog.txt'' (Raised ''unknown file extension: .txt'')],
        session_id = Some ''20240101_120000'',
        class_counts = [(''cat'', 1)],
        total_images = 3\<rparr>)"
  by code_simp

lemma sample_api_response:
  "fst (predict_api sample_lib sample_request fresh_process) =
     (200, Json
       \<lparr>results =
          [error_result ''broken.jpg'' (Raised ''cannot identify image file''),
           error_result ''cat.jpg'' (Raised ''HTTP Error 503''),
           \<lparr>result_filename = ''dog.txt'', result_class = ''dog'',
            result_confidence = Some 90, result_saved_path = None, result_error = None\<rparr>],
        session_id = None,
        class_counts = [(''dog'', 1)],
        total_images = 3\<rparr>)"
  by code_simp

theorem per_image_failure_isolated_witness:
  "fst (predict_image_app (faulty_lib 1) () [7] ''a.png'' ''s'' []) = error_result ''a.png'' injected
   \<and> fst (predict_image_app (faulty_lib 2) () [7] ''a.png'' ''s'' []) = error_result ''a.png'' injected
   \<and> fst (predict_image_app (faulty_lib 3) () [7] ''a.png'' ''s'' []) = error_result ''a.png'' injected
   \<and> fst (predict_image_app (faulty_lib 4) () [7] ''a.png'' ''s'' []) = error_result ''a.png'' injected
   \<and> fst (predict_image_app (faulty_lib 6) () [7] ''a.png'' ''s'' []) = error_result ''a.png'' injected
   \<and> fst (predict_image_app (faulty_lib 7) () [7] ''a.png'' ''s'' []) = error_result ''a.png'' IndexError
   \<and> predict_image_app (faulty_lib 9) () [7] ''a.png'' ''s'' [] = (error_result ''a.png'' injected, [])
   \<and> predict_image_app (faulty_lib 10) () [7] ''a.png'' ''s'' [] = (error_result ''a.png'' injected, [])
   \<and> fst (predict_image_api (faulty_lib 1) [7] ''a.png'' fresh_process) = error_result ''a.png'' injected
   \<and> fst (predict_image_api (faulty_lib 2) [7] ''a.png'' fresh_process) = error_result ''a.png'' injected
   \<and> fst (predict_image_api (faulty_lib 3) [7] ''a.png'' fresh_process) = error_result ''a.png'' injected
   \<and> predict_image_api (faulty_lib 11) [7] ''a.png'' fresh_process
         = (error_result ''a.png'' injected, \<lparr>model_global = None, loads = 1\<rparr>)
   \<and> predict_image_api (faulty_lib 12) [7] ''a.png'' fresh_process
         = (error_result ''a.png'' injected, \<lparr>model_global = Some (), loads = 1\<rparr>)
   \<and> predict_image_api (faulty_lib 4) [7] ''a.png'' fresh_process
         = (error_result ''a.png'' injected, \<lparr>model_global = Some (), loads = 1\<rparr>)
   \<and> predict_image_api (faulty_lib 5) [7] ''a.png'' fresh_process
         = (error_result ''a.png'' injected, \<lparr>model_global = Some (), loads = 1\<rparr>)
   \<and> predict_image_api (faulty_lib 6) [7] ''a.png'' fresh_process
         = (error_result ''a.png'' injected, \<lparr>model_global = Some (), loads = 1\<rparr>)
   \<and> predict_image_api (faulty_lib 7) [7] ''a.png'' fresh_process
         = (error_result ''a.png'' IndexError, \<lparr>model_global = Some (), loads = 1\<rparr>)
   \<and> predict_image_api (faulty_lib 8) [7] ''a.png'' fresh_process
         = (error_result ''a.png'' injected, \<lparr>model_global = Some (), loads = 1\<rparr>)
   \<and> (\<exists>r. fst (predict_app sample_lib () ''20240101_120000'' sample_request []) = (200, Json r)
         \<and> map result_class (results r) = [''error'', ''cat'', ''error''])
   \<and> (\<exists>r. fst (predict_api sample_lib sample_request fresh_process) = (200, Json r)
         \<and> map result_class (results r) = [''error'', ''error'', ''dog''])"
proof -
  note ev = faulty_lib_def fresh_process_def get_model_def labelOf_7 labelOf_10
    os_path_join_def OUTPUT_DIR_def
  have a1: "fst (predict_image_app (faulty_lib 1) () [7] ''a.png'' ''s'' []) = error_result ''a.png'' injected"
    using per_image_failure_isolated [where lib = "faulty_lib 1" and bytes = "[7]"
        and e = "injected" and model = "()" and fname = "''a.png''" and sid = "''s''"
        and w = "[]" and opened = "[7]" and img = "[7]" and input_tensor = "7" and logits = "7"
        and predicted_idx = "7" and predicted_class = "''horse''" and w_made = "[]"
        and w_saved = "[]" and st = "fresh_process"
        and st_next = "\<lparr>model_global = Some (), loads = 1\<rparr>" and loaded = "()"
        and probabilities = "7" and request_files = "[]" and now = "[]" and files = "[]"
        and s = "()" and step = "\<lambda>s f. (error_result [] injected, s)"]
    by (simp add: ev)
  have a2: "fst (predict_image_app (faulty_lib 2) () [7] ''a.png'' ''s'' []) = error_result ''a.png'' injected"
    using per_image_failure_isolated [where lib = "faulty_lib 2" and bytes = "[7]"
        and e = "injected" and model = "()" and fname = "''a.png''" and sid = "''s''"
        and w = "[]" and opened = "[7]" and img = "[7]" and input_tensor = "7" and logits = "7"
        and predicted_idx = "7" and predicted_class = "''horse''" and w_made = "[]"
        and w_saved = "[]" and st = "fresh_process"
        and st_next = "\<lparr>model_global = Some (), loads = 1\<rparr>" and loaded = "()"
        and probabilities = "7" and request_files = "[]" and now = "[]" and files = "[]"
        and s = "()" and step = "\<lambda>s f. (error_result [] injected, s)"]
    by (simp add: ev)
  have a3: "fst (predict_image_app (faulty_lib 3) () [7] ''a.png'' ''s'' []) = error_result ''a.png'' injected"
    using per_image_failure_isolated [where lib = "faulty_lib 3" and bytes = "[7]"
        and e = "injected" and model = "()" and fname = "''a.png''" and sid = "''s''"
        and w = "[]" and opened = "[7]" and img = "[7]" and input_tensor = "7" and logits = "7"
        and predicted_idx = "7" and predicted_class = "''horse''" and w_made = "[]"
        and w_saved = "[]" and st = "fresh_process"
        and st_next = "\<lparr>model_global = Some (), loads = 1\<rparr>" and loaded = "()"
        and probabilities = "7" and request_files = "[]" and now = "[]" and files = "[]"
        and s = "()" and step = "\<lambda>s f. (error_result [] injected, s)"]
    by (simp add: ev)
  have a4: "fst (predict_image_app (faulty_lib 4) () [7] ''a.png'' ''s'' []) = error_result ''a.png'' injected"
    using per_image_failure_isolated [where lib = "faulty_lib 4" and bytes = "[7]"
        and e = "injected" and model = "()" and fname = "''a.png''" and sid = "''s''"
        and w = "[]" and opened = "[7]" and img = "[7]" and input_tensor = "7" and logits = "7"
        and predicted_idx = "7" and predicted_class = "''horse''" and w_made = "[]"
        and w_saved = "[]" and st = "fresh_process"
        and st_next = "\<lparr>model_global = Some (), loads = 1\<rparr>" and loaded = "()"
        and probabilities = "7" and request_files = "[]" and now = "[]" and files = "[]"
        and s = "()" and step = "\<lambda>s f. (error_result [] injected, s)"]
    by (simp add: ev)
  have a6: "fst (predict_image_app (faulty_lib 6) () [7] ''a.png'' ''s'' []) = error_result ''a.png'' injected"
    using per_image_failure_isolated [where lib = "faulty_lib 6" and bytes = "[7]"
        and e = "injected" and model = "()" and fname = "''a.png''" and sid = "''s''"
        and w = "[]" and opened = "[7]" and img = "[7]" and input_tensor = "7" and logits = "7"
        and predicted_idx = "7" and predicted_class = "''horse''" and w_made = "[]"
        and w_saved = "[]" and st = "fresh_process"
        and st_next = "\<lparr>model_global = Some (), loads = 1\<rparr>" and loaded = "()"
        and probabilities = "7" and request_files = "[]" and now = "[]" and files = "[]"
        and s = "()" and step = "\<lambda>s f. (error_result [] injected, s)"]
    by (simp add: ev)
  have a7: "fst (predict_image_app (faulty_lib 7) () [7] ''a.png'' ''s'' []) = error_result ''a.png'' IndexError"
    using per_image_failure_isolated [where lib = "faulty_lib 7" and bytes = "[7]"
        and e = "IndexError" and model = "()" and fname = "''a.png''" and sid = "''s''"
        and w = "[]" and opened = "[7]" and img = "[7]" and input_tensor = "7" and logits = "7"
        and predicted_idx = "10" and predicted_class = "''horse''" and w_made = "[]"
        and w_saved = "[]" and st = "fresh_process"
        and st_next = "\<lparr>model_global = Some (), loads = 1\<rparr>" and loaded = "()"
        and probabilities = "7" and request_files = "[]" and now = "[]" and files = "[]"
        and s = "()" and step = "\<lambda>s f. (error_result [] injected, s)"]
    by (simp add: ev)
  have a9: "predict_image_app (faulty_lib 9) () [7] ''a.png'' ''s'' [] = (error_result ''a.png'' injected, [])"
    using per_image_failure_isolated [where lib = "faulty_lib 9" and bytes = "[7]"
        and e = "injected" and model = "()" and fname = "''a.png''" and sid = "''s''"
        and w = "[]" and opened = "[7]" and img = "[7]" and input_tensor = "7" and logits = "7"
        and predicted_idx = "7" and predicted_class = "''horse''" and w_made = "[]"
        and w_saved = "[]" and st = "fresh_process"
        and st_next = "\<lparr>model_global = Some (), loads = 1\<rparr>" and loaded = "()"
        and probabilities = "7" and request_files = "[]" and now = "[]" and files = "[]"
        and s = "()" and step = "\<lambda>s f. (error_result [] injected, s)"]
    by (simp add: ev)
  have a10: "predict_image_app (faulty_lib 10) () [7] ''a.png'' ''s'' [] = (error_result ''a.png'' injected, [])"
    using per_image_failure_isolated [where lib = "faulty_lib 10" and bytes = "[7]"
        and e = "injected" and model = "()" and fname = "''a.png''" and sid = "''s''"
        and w = "[]" and opened = "[7]" and img = "[7]" and input_tensor = "7" and logits = "7"
        and predicted_idx = "7" and predicted_class = "''horse''" and w_made = "[]"
        and w_saved = "[]" and st = "fresh_process"
        and st_next = "\<lparr>model_global = Some (), loads = 1\<rparr>" and loaded = "()"
        and probabilities = "7" and request_files = "[]" and now = "[]" and files = "[]"
        and s = "()" and step = "\<lambda>s f. (error_result [] injected, s)"]
    by (simp add: ev)
  have b1: "fst (predict_image_api (faulty_lib 1) [7] ''a.png'' fresh_process) = error_result ''a.png'' injected"
    using per_image_failure_isolated [where lib = "faulty_lib 1" and bytes = "[7]"
        and e = "injected" and model = "()" and fname = "''a.png''" and sid = "''s''"
        and w = "[]" and opened = "[7]" and img = "[7]" and input_tensor = "7" and logits = "7"
        and predicted_idx = "7" and predicted_class = "''horse''" and w_made = "[]"
        and w_saved = "[]" and st = "fresh_process"
        and st_next = "\<lparr>model_global = Some (), loads = 1\<rparr>" and loaded = "()"
        and probabilities = "7" and request_files = "[]" and now = "[]" and files = "[]"
        and s = "()" and step = "\<lambda>s f. (error_result [] injected, s)"]
    by (simp add: ev)
  have b2: "fst (predict_image_api (faulty_lib 2) [7] ''a.png'' fresh_process) = error_result ''a.png'' injected"
    using per_image_failure_isolated [where lib = "faulty_lib 2" and bytes = "[7]"
        and e = "injected" and model = "()" and fname = "''a.png''" and sid = "''s''"
        and w = "[]" and opened = "[7]" and img = "[7]" and input_tensor = "7" and logits = "7"
        and predicted_idx = "7" and predicted_class = "''horse''" and w_made = "[]"
        and w_saved = "[]" and st = "fresh_process"
        and st_next = "\<lparr>model_global = Some (), loads = 1\<rparr>" and loaded = "()"
        and probabilities = "7" and request_files = "[]" and now = "[]" and files = "[]"
        and s = "()" and step = "\<lambda>s f. (error_result [] injected, s)"]
    by (simp add: ev)
  have b3: "fst (predict_image_api (faulty_lib 3) [7] ''a.png'' fresh_process) = error_result ''a.png'' injected"
    using per_image_failure_isolated [where lib = "faulty_lib 3" and bytes = "[7]"
        and e = "injected" and model = "()" and fname = "''a.png''" and sid = "''s''"
        and w = "[]" and opened = "[7]" and img = "[7]" and input_tensor = "7" and logits = "7"
        and predicted_idx = "7" and predicted_class = "''horse''" and w_made = "[]"
        and w_saved = "[]" and st = "fresh_process"
        and st_next = "\<lparr>model_global = Some (), loads = 1\<rparr>" and loaded = "()"
        and probabilities = "7" and request_files = "[]" and now = "[]" and files = "[]"
        and s = "()" and step = "\<lambda>s f. (error_result [] injected, s)"]
    by (simp add: ev)
  have b11: "predict_image_api (faulty_lib 11) [7] ''a.png'' fresh_process = (error_result ''a.png'' injected, \<lparr>model_global = None, loads = 1\<rparr>)"
    using per_image_failure_isolated [where lib = "faulty_lib 11" and bytes = "[7]"
        and e = "injected" and model = "()" and fname = "''a.png''" and sid = "''s''"
        and w = "[]" and opened = "[7]" and img = "[7]" and input_tensor = "7" and logits = "7"
        and predicted_idx = "7" and predicted_class = "''horse''" and w_made = "[]"
        and w_saved = "[]" and st = "fresh_process"
        and st_next = "\<lparr>model_global = None, loads = 1\<rparr>" and loaded = "()"
        and probabilities = "7" and request_files = "[]" and now = "[]" and files = "[]"
        and s = "()" and step = "\<lambda>s f. (error_result [] injected, s)"]
    by (simp add: ev)
  have b12: "predict_image_api (faulty_lib 12) [7] ''a.png'' fresh_process = (error_result ''a.png'' injected, \<lparr>model_global = Some (), loads = 1\<rparr>)"
    using per_image_failure_isolated [where lib = "faulty_lib 12" and bytes = "[7]"
        and e = "injected" and model = "()" and fname = "''a.png''" and sid = "''s''"
        and w = "[]" and opened = "[7]" and img = "[7]" and input_tensor = "7" and logits = "7"
        and predicted_idx = "7" and predicted_class = "''horse''" and w_made = "[]"
        and w_saved = "[]" and st = "fresh_process"
        and st_next = "\<lparr>model_global = Some (), loads = 1\<rparr>" and loaded = "()"
        and probabilities = "7" and request_files = "[]" and now = "[]" and files = "[]"
        and s = "()" and step = "\<lambda>s f. (error_result [] injected, s)"]
    by (simp add: ev)
  have b4: "predict_image_api (faulty_lib 4) [7] ''a.png'' fresh_process = (error_result ''a.png'' injected, \<lparr>model_global = Some (), loads = 1\<rparr>)"
    using per_image_failure_isolated [where lib = "faulty_lib 4" and bytes = "[7]"
        and e = "injected" and model = "()" and fname = "''a.png''" and sid = "''s''"
        and w = "[]" and opened = "[7]" and img = "[7]" and input_tensor = "7" and logits = "7"
        and predicted_idx = "7" and predicted_class = "''horse''" and w_made = "[]"
        and w_saved = "[]" and st = "fresh_process"
        and st_next = "\<lparr>model_global = Some (), loads = 1\<rparr>" and loaded = "()"
        and probabilities = "7" and request_files = "[]" and now = "[]" and files = "[]"
        and s = "()" and step = "\<lambda>s f. (error_result [] injected, s)"]
    by (simp add: ev)
  have b5: "predict_image_api (faulty_lib 5) [7] ''a.png'' fresh_process = (error_result ''a.png'' injected, \<lparr>model_global = Some (), loads = 1\<rparr>)"
    using per_image_failure_isolated [where lib = "faulty_lib 5" and bytes = "[7]"
        and e = "injected" and model = "()" and fname = "''a.png''" and sid = "''s''"
        and w = "[]" and opened = "[7]" and img = "[7]" and input_tensor = "7" and logits = "7"
        and predicted_idx = "7" and predicted_class = "''horse''" and w_made = "[]"
        and w_saved = "[]" and st = "fresh_process"
        and st_next = "\<lparr>model_global = Some (), loads = 1\<rparr>" and loaded = "()"
        and probabilities = "7" and request_files = "[]" and now = "[]" and files = "[]"
        and s = "()" and step = "\<lambda>s f. (error_result [] injected, s)"]
    by (simp add: ev)
  have b6: "predict_image_api (faulty_lib 6) [7] ''a.png'' fresh_process = (error_result ''a.png'' injected, \<lparr>model_global = Some (), loads = 1\<rparr>)"
    using per_image_failure_isolated [where lib = "faulty_lib 6" and bytes = "[7]"
        and e = "injected" and model = "()" and fname = "''a.png''" and sid = "''s''"
        and w = "[]" and opened = "[7]" and img = "[7]" and input_tensor = "7" and logits = "7"
        and predicted_idx = "7" and predicted_class = "''horse''" and w_made = "[]"
        and w_saved = "[]" and st = "fresh_process"
        and st_next = "\<lparr>model_global = Some (), loads = 1\<rparr>" and loaded = "()"
        and probabilities = "7" and request_files = "[]" and now = "[]" and files = "[]"
        and s = "()" and step = "\<lambda>s f. (error_result [] injected, s)"]
    by (simp add: ev)
  have b7: "predict_image_api (faulty_lib 7) [7] ''a.png'' fresh_process = (error_result ''a.png'' IndexError, \<lparr>model_global = Some (), loads = 1\<rparr>)"
    using per_image_failure_isolated [where lib = "faulty_lib 7" and bytes = "[7]"
        and e = "IndexError" and model = "()" and fname = "''a.png''" and sid = "''s''"
        and w = "[]" and opened = "[7]" and img = "[7]" and input_tensor = "7" and logits = "7"
        and predicted_idx = "10" and predicted_class = "''horse''" and w_made = "[]"
        and w_saved = "[]" and st = "fresh_process"
        and st_next = "\<lparr>model_global = Some (), loads = 1\<rparr>" and loaded = "()"
        and probabilities = "7" and request_files = "[]" and now = "[]" and files = "[]"
        and s = "()" and step = "\<lambda>s f. (error_result [] injected, s)"]
    by (simp add: ev)
  have b8: "predict_image_api (faulty_lib 8) [7] ''a.png'' fresh_process = (error_result ''a.png'' injected, \<lparr>model_global = Some (), loads = 1\<rparr>)"
    using per_image_failure_isolated [where lib = "faulty_lib 8" and bytes = "[7]"
        and e = "injected" and model = "()" and fname = "''a.png''" and sid = "''s''"
        and w = "[]" and opened = "[7]" and img = "[7]" and input_tensor = "7" and logits = "7"
        and predicted_idx = "7" and predicted_class = "''horse''" and w_made = "[]"
        and w_saved = "[]" and st = "fresh_process"
        and st_next = "\<lparr>model_global = Some (), loads = 1\<rparr>" and loaded = "()"
        and probabilities = "7" and request_files = "[]" and now = "[]" and files = "[]"
        and s = "()" and step = "\<lambda>s f. (error_result [] injected, s)"]
    by (simp add: ev)
  note batch = per_image_failure_isolated
      [where request_files = sample_request and lib = sample_lib
        and bytes = "[]" and e = injected and model = "()" and fname = "[]" and sid = "[]"
        and w = "[]" and opened = "[]" and img = "[]" and input_tensor = 0 and logits = 0
        and predicted_idx = 0 and predicted_class = "[]" and w_made = "[]" and w_saved = "[]"
        and st = fresh_process and st_next = fresh_process and loaded = "()"
        and probabilities = 0 and now = "''20240101_120000''" and files = "[]" and s = "()"
        and step = "\<lambda>s f. (error_result [] injected, s)"]
  have c1: "\<exists>r. fst (predict_app sample_lib () ''20240101_120000'' sample_request []) = (200, Json r)
         \<and> map result_class (results r) = [''error'', ''cat'', ''error'']"
  proof -
    have "has_field sample_request ''images'' \<longrightarrow>
        (\<exists>r. fst (predict_app sample_lib () ''20240101_120000'' sample_request [])
              = (200, Json r)
           \<and> results r = per_image_results
                (\<lambda>w file. predict_image_app sample_lib () (stream file) (filename file)
                   ''20240101_120000'' w)
                (getlist sample_request ''images'') [])"
      using batch by simp
    then obtain r where r: "fst (predict_app sample_lib () ''20240101_120000'' sample_request [])
        = (200, Json r)"
      using sample_has_field by auto
    then have "map result_class (results r) = [''error'', ''cat'', ''error'']"
      by (auto simp: sample_app_response error_result_def)
    with r show ?thesis
      by (intro exI [of _ r] conjI)
  qed
  have c2: "\<exists>r. fst (predict_api sample_lib sample_request fresh_process) = (200, Json r)
         \<and> map result_class (results r) = [''error'', ''error'', ''dog'']"
  proof -
    have "has_field sample_request ''images'' \<longrightarrow>
        (\<exists>r. fst (predict_api sample_lib sample_request fresh_process) = (200, Json r)
           \<and> results r = per_image_results
                (\<lambda>st file. predict_image_api sample_lib (stream file) (filename file) st)
                (getlist sample_request ''images'') fresh_process)"
      using batch by simp
    then obtain r where r: "fst (predict_api sample_lib sample_request fresh_process)
        = (200, Json r)"
      using sample_has_field by auto
    then have "map result_class (results r) = [''error'', ''error'', ''dog'']"
      by (auto simp: sample_api_response error_result_def)
    with r show ?thesis
      by (intro exI [of _ r] conjI)
  qed
  show ?thesis
    by (intro conjI a1 a2 a3 a4 a6 a7 a9 a10 b1 b2 b3 b11 b12 b4 b5 b6 b7 b8 c1 c2)
qed

lemma sample_corrupt_step:
  "predict_image_app sample_lib () (stream corrupt_file) (filename corrupt_file) ''s'' []
     = (error_result ''broken.jpg'' (Raised ''cannot identify image file''), [])"
  by code_simp

theorem class_counts_sum_witness:
  "(\<exists>r. fst (predict_app sample_lib () ''20240101_120000'' sample_request []) = (200, Json r)
       \<and> sum_values (class_counts r) = 1
       \<and> length (filter (\<lambda>x. result_class x \<noteq> ''error'') (results r)) = 1)
   \<and> (\<exists>r. fst (predict_api sample_lib sample_request fresh_process) = (200, Json r)
       \<and> sum_values (class_counts r) = 1
       \<and> length (filter (\<lambda>x. result_class x \<noteq> ''error'') (results r)) = 1)
   \<and> classify_each
         (\<lambda>w file. predict_image_app sample_lib () (stream file) (filename file) ''s'' w)
         [corrupt_file, cat_file] [] [(''cat'', 2)] []
       = classify_each
         (\<lambda>w file. predict_image_app sample_lib () (stream file) (filename file) ''s'' w)
         [cat_file] [error_result ''broken.jpg'' (Raised ''cannot identify image file'')]
         [(''cat'', 2)] []"
proof -
  note inst = class_counts_sum
      [where request_files = sample_request and lib = sample_lib and model = "()"
        and now = "''20240101_120000''" and w = "[]" and st = fresh_process
        and upload = corrupt_file and files = "[cat_file]" and s = "[]" and s' = "[]"
        and res = "error_result ''broken.jpg'' (Raised ''cannot identify image file'')"
        and rs = "[]" and counts = "[(''cat'', 2)]"
        and step = "\<lambda>w file. predict_image_app sample_lib () (stream file) (filename file)
                     ''s'' w"]
  have c1: "\<exists>r. fst (predict_app sample_lib () ''20240101_120000'' sample_request []) = (200, Json r)
       \<and> sum_values (class_counts r) = 1
       \<and> length (filter (\<lambda>x. result_class x \<noteq> ''error'') (results r)) = 1"
  proof -
    obtain r where r: "fst (predict_app sample_lib () ''20240101_120000'' sample_request [])
          = (200, Json r)"
      and eq: "sum_values (class_counts r)
          = length (filter (\<lambda>x. result_class x \<noteq> ''error'') (results r))"
      using inst [THEN conjunct1] sample_has_field by auto
    have "sum_values (class_counts r) = 1"
      using r by (auto simp: sample_app_response sum_values_def)
    with r eq show ?thesis
      by (intro exI [of _ r] conjI) simp_all
  qed
  have c2: "\<exists>r. fst (predict_api sample_lib sample_request fresh_process) = (200, Json r)
       \<and> sum_values (class_counts r) = 1
       \<and> length (filter (\<lambda>x. result_class x \<noteq> ''error'') (results r)) = 1"
  proof -
    obtain r where r: "fst (predict_api sample_lib sample_request fresh_process) = (200, Json r)"
      and eq: "sum_values (class_counts r)
          = length (filter (\<lambda>x. result_class x \<noteq> ''error'') (results r))"
      using inst [THEN conjunct2, THEN conjunct1] sample_has_field by auto
    have "sum_values (class_counts r) = 1"
      using r by (auto simp: sample_api_response sum_values_def)
    with r eq show ?thesis
      by (intro exI [of _ r] conjI) simp_all
  qed
  have c3: "classify_each
         (\<lambda>w file. predict_image_app sample_lib () (stream file) (filename file) ''s'' w)
         [corrupt_file, cat_file] [] [(''cat'', 2)] []
       = classify_each
         (\<lambda>w file. predict_image_app sample_lib () (stream file) (filename file) ''s'' w)
         [cat_file] [error_result ''broken.jpg'' (Raised ''cannot identify image file'')]
         [(''cat'', 2)] []"
  proof -
    have h: "filename corrupt_file \<noteq> []
        \<and> predict_image_app sample_lib () (stream corrupt_file) (filename corrupt_file) ''s'' []
            = (error_result ''broken.jpg'' (Raised ''cannot identify image file''), [])
        \<and> result_class (error_result ''broken.jpg'' (Raised ''cannot identify image file''))
            = ''error''"
      using sample_corrupt_step by (simp add: corrupt_file_def error_result_def)
    show ?thesis
      using inst [THEN conjunct2, THEN conjunct2, rule_format, OF h] by simp
  qed
  show ?thesis
    by (intro conjI c1 c2 c3)
qed

theorem result_forms_exclusive_witness:
  "(\<exists>r. fst (predict_app sample_lib () ''20240101_120000'' sample_request []) = (200, Json r)
       \<and> map success_form (results r) = [False, True, False]
       \<and> map failure_form (results r) = [True, False, True])
   \<and> (\<exists>r. fst (predict_api sample_lib sample_request fresh_process) = (200, Json r)
       \<and> map success_form (results r) = [False, False, True]
       \<and> map failure_form (results r) = [True, True, False])"
proof -
  note inst = result_forms_exclusive
      [where request_files = sample_request and lib = sample_lib and model = "()"
        and now = "''20240101_120000''" and w = "[]" and st = fresh_process
        and bytes = "[]" and fname = "[]" and sid = "[]"]
  have p: "map failure_form r = map (\<lambda>x. \<not> x) (map success_form r)"
    if "\<forall>x \<in> set r. (success_form x \<or> failure_form x) \<and> \<not> (success_form x \<and> failure_form x)"
    for r :: "classification_result list"
    using that by (induction r) auto
  have c1: "\<exists>r. fst (predict_app sample_lib () ''20240101_120000'' sample_request []) = (200, Json r)
       \<and> map success_form (results r) = [False, True, False]
       \<and> map failure_form (results r) = [True, False, True]"
  proof -
    obtain r where r: "fst (predict_app sample_lib () ''20240101_120000'' sample_request [])
          = (200, Json r)"
      and ex: "\<forall>x \<in> set (results r).
          (success_form x \<or> failure_form x) \<and> \<not> (success_form x \<and> failure_form x)"
      using inst sample_has_field by auto
    have s: "map success_form (results r) = [False, True, False]"
      using r by (auto simp: sample_app_response error_result_def success_form_def)
    have "map failure_form (results r) = [True, False, True]"
      using p [OF ex] s by simp
    with r s show ?thesis
      by (intro exI [of _ r] conjI)
  qed
  have c2: "\<exists>r. fst (predict_api sample_lib sample_request fresh_process) = (200, Json r)
       \<and> map success_form (results r) = [False, False, True]
       \<and> map failure_form (results r) = [True, True, False]"
  proof -
    obtain r where r: "fst (predict_api sample_lib sample_request fresh_process) = (200, Json r)"
      and ex: "\<forall>x \<in> set (results r).
          (success_form x \<or> failure_form x) \<and> \<not> (success_form x \<and> failure_form x)"
      using inst sample_has_field by auto
    have s: "map success_form (results r) = [False, False, True]"
      using r by (auto simp: sample_api_response error_result_def success_form_def)
    have "map failure_form (results r) = [True, True, False]"
      using p [OF ex] s by simp
    with r s show ?thesis
      by (intro exI [of _ r] conjI)
  qed
  show ?thesis
    by (intro conjI c1 c2)
qed

subsection \<open>Session store\<close>

lemma map_of_replace_entry:
  "map_of (replace_entry es name n) = (map_of es)(name \<mapsto> n)"
  by (induction es) (auto simp: fun_eq_iff)

lemma names_replace_entry:
  "map fst (replace_entry es name n)
     = (if name \<in> set (map fst es) then map fst es else map fst es @ [name])"
  by (induction es) force+

lemma os_path_isdir_iff:
  "os_path_isdir fs n \<longleftrightarrow> (\<exists>sub. entry fs n = Some (Dir sub))"
proof (cases "entry fs n")
  case None
  then show ?thesis by (simp add: os_path_isdir_def)
next
  case (Some v)
  then show ?thesis by (cases v) (simp_all add: os_path_isdir_def)
qed

lemma entry_listed:
  "entry fs n = Some v \<Longrightarrow> n \<in> set (os_listdir fs)"
proof (cases fs)
  case None
  assume "entry fs n = Some v"
  then show ?thesis using None by (simp add: entry_def)
next
  case (Some es)
  assume "entry fs n = Some v"
  then have "(n, v) \<in> set es"
    using Some by (simp add: entry_def map_of_SomeD)
  then have "fst (n, v) \<in> fst ` set es"
    by (rule imageI)
  then show ?thesis
    using Some by (simp add: os_listdir_def)
qed

lemma sessions_are_directories:
  "set (filter (os_path_isdir fs) (os_listdir fs)) = {n. \<exists>sub. entry fs n = Some (Dir sub)}"
  using entry_listed [of fs] by (auto simp: os_path_isdir_iff)

text \<open>
  What \<open>download\<close> does guarantee: 404 with \<open>Session not found\<close>, and an unchanged
  store, when nothing at all exists at the path.
\<close>

lemma download_missing:
  "\<not> os_path_exists fs sid \<Longrightarrow>
   download zip_bytes sid fs = (Inr (404, ErrorJson ''Session not found''), fs)"
  by (simp add: download_def)

lemma download_existing:
  assumes "os_path_exists fs sid"
  shows "fst (download zip_bytes sid fs) \<noteq> Inr (404, ErrorJson ''Session not found'')"
  using assms
  by (simp add: download_def Let_def split: sum.splits)

lemma download_written:
  assumes "download zip_bytes sid fs = (Inr (200, Json (Attachment zn bytes)), fs')"
  shows "\<exists>es. fs = Some es
           \<and> (\<forall>sub. map_of es zn \<noteq> Some (Dir sub))
           \<and> fs' = Some (replace_entry es zn (File bytes))
           \<and> zn = ''classified_images_'' @ sid @ ''.zip''"
proof -
  have ex: "os_path_exists fs sid"
    using assms by (auto simp: download_def split: if_splits)
  then obtain es where es: "fs = Some es"
    by (cases fs) (simp_all add: os_path_exists_def entry_def)
  show ?thesis
    using assms ex es
    by (auto simp: download_def Let_def write_file_def
        split: sum.splits option.splits node.splits)
qed

lemma isdir_after_write:
  assumes "\<forall>sub. map_of es zn \<noteq> Some (Dir sub)"
  shows "os_path_isdir (Some (replace_entry es zn (File bytes))) d = os_path_isdir (Some es) d"
  using assms
  by (auto simp: os_path_isdir_def entry_def map_of_replace_entry
      split: option.splits node.splits)

lemma sessions_after_write:
  assumes "\<forall>sub. map_of es zn \<noteq> Some (Dir sub)"
  shows "filter (os_path_isdir (Some (replace_entry es zn (File bytes))))
           (os_listdir (Some (replace_entry es zn (File bytes))))
         = filter (os_path_isdir (Some es)) (os_listdir (Some es))"
proof -
  have nd: "\<not> os_path_isdir (Some es) zn"
    using assms by (auto simp: os_path_isdir_def entry_def split: option.splits node.splits)
  have "filter (os_path_isdir (Some (replace_entry es zn (File bytes)))) xs
      = filter (os_path_isdir (Some es)) xs" for xs
    using isdir_after_write [OF assms] by (induction xs) auto
  then show ?thesis
    using nd by (simp add: os_listdir_def names_replace_entry)
qed

text \<open>
  Claim C10. \<open>list_sessions\<close> answers with the names listed under \<open>OUTPUT_DIR\<close> that
  are directories, no more and no fewer (none when \<open>OUTPUT_DIR\<close> is absent). An archive
  that \<open>download\<close> has written is a file named \<open>classified_images_<id>.zip\<close> in
  \<open>OUTPUT_DIR\<close>; it is not in the session list, and the list is what it was before the
  download.
\<close>

theorem list_sessions_directories:
  "list_sessions fs = (200, Json (filter (os_path_isdir fs) (os_listdir fs)))
   \<and> set (filter (os_path_isdir fs) (os_listdir fs)) = {n. \<exists>sub. entry fs n = Some (Dir sub)}
   \<and> (download zip_bytes sid fs = (Inr (200, Json (Attachment zn bytes)), fs') \<longrightarrow>
        zn = ''classified_images_'' @ sid @ ''.zip''
        \<and> entry fs' zn = Some (File bytes)
        \<and> zn \<notin> set (filter (os_path_isdir fs') (os_listdir fs'))
        \<and> list_sessions fs' = list_sessions fs)"
proof -
  have ls: "list_sessions fs = (200, Json (filter (os_path_isdir fs) (os_listdir fs)))" for fs
    by (cases fs) (simp_all add: list_sessions_def output_dir_exists_def os_listdir_def)
  have dl: "zn = ''classified_images_'' @ sid @ ''.zip''
        \<and> entry fs' zn = Some (File bytes)
        \<and> zn \<notin> set (filter (os_path_isdir fs') (os_listdir fs'))
        \<and> list_sessions fs' = list_sessions fs"
    if d: "download zip_bytes sid fs = (Inr (200, Json (Attachment zn bytes)), fs')"
  proof -
    obtain es where es: "fs = Some es" "\<forall>sub. map_of es zn \<noteq> Some (Dir sub)"
      "fs' = Some (replace_entry es zn (File bytes))"
      "zn = ''classified_images_'' @ sid @ ''.zip''"
      using download_written [OF d] by blast
    have e: "entry fs' zn = Some (File bytes)"
      using es(3) by (simp add: entry_def map_of_replace_entry)
    then have "\<not> os_path_isdir fs' zn"
      by (simp add: os_path_isdir_def)
    then have n: "zn \<notin> set (filter (os_path_isdir fs') (os_listdir fs'))"
      by simp
    have "list_sessions fs' = list_sessions fs"
      using sessions_after_write [OF es(2), of bytes] es(1,3) by (simp add: ls)
    then show ?thesis
      using es(4) e n by blast
  qed
  show ?thesis
    using ls [of fs] sessions_are_directories [of fs] dl by blast
qed

lemma sample_download:
  "download stored_archive ''20240101_120000'' sample_store
     = (Inr (200, Json (Attachment ''classified_images_20240101_120000.zip'' [1, 2, 3])),
        sample_store_downloaded)"
  by code_simp

theorem list_sessions_directories_witness:
  "download stored_archive ''20240101_120000'' sample_store
     = (Inr (200, Json (Attachment ''classified_images_20240101_120000.zip'' [1, 2, 3])),
        sample_store_downloaded)
   \<and> entry sample_store_downloaded ''classified_images_20240101_120000.zip''
       = Some (File [1, 2, 3])
   \<and> list_sessions sample_store_downloaded = (200, Json [''20240101_120000''])
   \<and> list_sessions sample_store = (200, Json [''20240101_120000''])"
proof -
  note inst = list_sessions_directories
      [where fs = sample_store and zip_bytes = stored_archive and sid = "''20240101_120000''"
        and zn = "''classified_images_20240101_120000.zip''" and bytes = "[1, 2, 3]"
        and fs' = sample_store_downloaded]
  have before: "list_sessions sample_store = (200, Json [''20240101_120000''])"
    using inst [THEN conjunct1]
    by (simp add: sample_store_def os_listdir_def os_path_isdir_def entry_def)
  have after: "entry sample_store_downloaded ''classified_images_20240101_120000.zip''
         = Some (File [1, 2, 3])
       \<and> list_sessions sample_store_downloaded = list_sessions sample_store"
    using inst [THEN conjunct2, THEN conjunct2, rule_format, OF sample_download] by simp
  show ?thesis
    using sample_download before after by simp
qed

text \<open>
  Claim C9 against the code. After one download of the session \<open>20240101_120000\<close> the
  output root holds the archive \<open>classified_images_20240101_120000.zip\<close>. That name is
  no session: there is no directory of that name, and \<open>list_sessions\<close> does not list
  it. Asked for it, \<open>download\<close> tests \<open>os.path.exists\<close>, finds the file, and answers
  200 with an archive of no members instead of 404.
\<close>

theorem download_of_archive_name:
  "fst (download zip_bytes ''20240101_120000'' sample_store)
     = Inr (200, Json (Attachment ''classified_images_20240101_120000.zip''
                        (zip_bytes [(''cat/a.png'', [1, 2, 3])])))
   \<and> \<not> os_path_isdir (snd (download zip_bytes ''20240101_120000'' sample_store))
         ''classified_images_20240101_120000.zip''
   \<and> fst (list_sessions (snd (download zip_bytes ''20240101_120000'' sample_store)))  = 200
   \<and> snd (list_sessions (snd (download zip_bytes ''20240101_120000'' sample_store)))
       = Json [''20240101_120000'']
   \<and> fst (download zip_bytes ''classified_images_20240101_120000.zip''
            (snd (download zip_bytes ''20240101_120000'' sample_store)))
       = Inr (200, Json (Attachment ''classified_images_classified_images_20240101_120000.zip.zip''
                          (zip_bytes [])))"
  by (simp add: download_def sample_store_def os_path_exists_def os_path_isdir_def entry_def
      os_walk_files_def write_file_def relpath_def Let_def list_sessions_def
      output_dir_exists_def os_listdir_def)

subsection \<open>Lazy loading of the network\<close>

text \<open>
  Calls of \<open>get_model\<close> that follow one another: once a call has returned a network,
  later calls return the same network without loading. A call that raised has made one
  load; \<open>_model\<close> is then empty, or holds the network whose \<open>eval()\<close> raised.
\<close>

lemma get_model_cached:
  "model_global st = Some m \<Longrightarrow> get_model lib st = (Inr m, st)"
  by (simp add: get_model_def)

lemma get_model_loads_once:
  assumes "get_model lib st = (Inr m, st')"
  shows "get_model lib st' = (Inr m, st') \<and> loads st' \<le> loads st + 1
         \<and> model_global st' = Some m"
  using assms
  by (auto simp: get_model_def split: option.splits sum.splits)

lemma get_model_after_failure:
  assumes "get_model lib st = (Inl e, st')"
  shows "loads st' = loads st + 1
         \<and> (model_global st' = None
              \<or> (\<exists>m. model_global st' = Some m \<and> hub_load lib (loads st) = Inr m
                     \<and> model_eval lib m = Some e))"
  using assms
  by (auto simp: get_model_def split: option.splits sum.splits)

text \<open>A caller that runs alone does what \<open>get_model\<close> does.\<close>

lemma caller_alone:
  "run_schedule lib [0, 0] [AtCheck] st
     = ([Finished (fst (get_model lib st))], snd (get_model lib st))"
  by (simp add: get_model_def split: option.splits sum.splits)

text \<open>
  Two callers in a process whose \<open>_model\<close> is empty, both past the test before either
  loads: each of them loads, whatever the collaborators, provided the two loads succeed.
\<close>

lemma two_callers_both_load:
  assumes "model_global st = None"
    and "hub_load lib (loads st) = Inr a" and "model_eval lib a = None"
    and "hub_load lib (loads st + 1) = Inr b" and "model_eval lib b = None"
  shows "run_schedule lib [0, 1, 0, 1] [AtCheck, AtCheck] st
           = ([Finished (Inr a), Finished (Inr b)],
              \<lparr>model_global = Some b, loads = loads st + 2\<rparr>)"
  using assms by simp

text \<open>
  Claim C5 against the code. Two callers A and B trigger the first use in a fresh
  process. Scheduled A tests, B tests, A loads, B loads, \<open>torch.hub.load\<close> runs
  twice and the callers return two different networks, where the claim and the
  docstring of \<open>get_model\<close> (only once per serverless instance) demand one load and one
  network. When A finishes before B starts there is one load and one network, and a
  caller alone is \<open>get_model\<close>.
\<close>

theorem two_callers_load_twice:
  "run_schedule counting_lib [0, 1, 0, 1] [AtCheck, AtCheck] fresh_counting
     = ([Finished (Inr 0), Finished (Inr 1)], \<lparr>model_global = Some 1, loads = 2\<rparr>)
   \<and> run_schedule counting_lib [0, 0, 1, 1] [AtCheck, AtCheck] fresh_counting
     = ([Finished (Inr 0), Finished (Inr 0)], \<lparr>model_global = Some 0, loads = 1\<rparr>)
   \<and> run_schedule counting_lib [0, 0] [AtCheck] fresh_counting
     = ([Finished (fst (get_model counting_lib fresh_counting))],
        snd (get_model counting_lib fresh_counting))"
  by (simp add: counting_lib_def fresh_counting_def get_model_def)

end
